theory Spec2Isabelle
  imports Complex_Main
begin

section \<open>Event study engine: data model\<close>

text \<open>
  The development embeds \<^verbatim>\<open>quant/event_study.py\<close> (class \<^verbatim>\<open>EventStudy\<close>).
  Conventions of the embedding:
  \<^item> a finite float is read as a real number; the non-finite floats that change the
    control flow of the module (\<^verbatim>\<open>nan\<close>, \<^verbatim>\<open>inf\<close>) are constructors of \<open>pyfloat\<close>;
  \<^item> a calendar date is its day number (an \<open>int\<close>), so \<^verbatim>\<open>timedelta(days=k)\<close> is
    the integer \<open>k\<close>;
  \<^item> a data frame is kept as its index and its \<^verbatim>\<open>'return'\<close> column: a list of
    (date, return) rows in index order. The indexes the module works on are those of
    daily price histories, strictly increasing in the date;
  \<^item> the functions of yfinance, statsmodels and scipy that the module calls are
    fields of the record \<open>libs\<close>, so every theorem holds for whatever they return;
  \<^item> an exception is the left summand of a sum type and carries its message.
\<close>

type_synonym frame = "(int \<times> real) list"

type_synonym datetime = "int \<times> nat"

definition date_of :: "datetime \<Rightarrow> int" where
  "date_of ts = fst ts"

datatype pyfloat = Fin real | PInf | NInf | NaN

text \<open>\<^verbatim>\<open>p < c\<close> for a float \<open>p\<close> and a finite constant \<open>c\<close>: false on \<^verbatim>\<open>nan\<close>.\<close>

fun f_lt :: "pyfloat \<Rightarrow> real \<Rightarrow> bool" where
  "f_lt (Fin x) c = (x < c)"
| "f_lt NInf c = True"
| "f_lt PInf c = False"
| "f_lt NaN c = False"

record event_study =
  event_timestamp :: datetime
  ticker :: string
  estimation_window_days :: int
  event_window_days :: int
  market_ticker :: string
  rf_rate :: real
  stock_data :: "frame option"
  market_data :: "frame option"
  beta :: "real option"
  alpha :: "real option"
  ar :: "real option"
  car :: "real option"
  ar_series :: "frame option"
  p_value :: "pyfloat option"
  t_statistic :: "pyfloat option"

text \<open>
  The library functions used by the module.
  \<^item> \<open>history t a b\<close>: \<^verbatim>\<open>yf.Ticker(t).history(start=a, end=b)\<close>, the (date, Close)
    rows of the answer or the message of the exception raised;
  \<^item> \<open>ols_fit x y\<close>: \<^verbatim>\<open>sm.OLS(y, sm.add_constant(x), missing='drop').fit()\<close>, the pair
    \<^verbatim>\<open>(params[0], params[1])\<close> or the message of the exception raised;
  \<^item> \<open>t_cdf df x\<close>: the distribution function of Student's t with \<open>df \<ge> 1\<close> degrees
    of freedom at \<open>x\<close>;
  \<^item> \<open>ttest_1samp xs\<close>: \<^verbatim>\<open>stats.ttest_1samp(xs, 0)\<close>, statistic and p-value.
\<close>

record libs =
  history :: "string \<Rightarrow> int \<Rightarrow> int \<Rightarrow> string + (int \<times> real) list"
  ols_fit :: "real list \<Rightarrow> real list \<Rightarrow> string + real \<times> real"
  t_cdf :: "nat \<Rightarrow> real \<Rightarrow> real"
  ttest_1samp :: "real list \<Rightarrow> pyfloat \<times> pyfloat"

definition SIGNIFICANCE_LEVEL :: real where
  "SIGNIFICANCE_LEVEL = 5 / 100"

definition RISK_FREE_RATE :: real where
  "RISK_FREE_RATE = 4 / 100"

definition init :: "datetime \<Rightarrow> string \<Rightarrow> int \<Rightarrow> int \<Rightarrow> string \<Rightarrow> event_study" where
  "init ts tk est_days ev_days mkt =
     \<lparr> event_timestamp = ts, ticker = tk, estimation_window_days = est_days,
       event_window_days = ev_days, market_ticker = mkt, rf_rate = RISK_FREE_RATE,
       stock_data = None, market_data = None, beta = None, alpha = None,
       ar = None, car = None, ar_series = None, p_value = None, t_statistic = None \<rparr>"

section \<open>numpy and scipy helpers\<close>

text \<open>
  \<^verbatim>\<open>np.median\<close>: the middle element of the sorted values, or the mean of the two middle
  ones. On an empty array numpy answers \<^verbatim>\<open>nan\<close>; every call of the module is behind a
  length check, which the model keeps, so the empty case is never evaluated.
\<close>

definition np_median :: "real list \<Rightarrow> real" where
  "np_median xs =
     (let ys = sort xs; n = length ys in
      if n mod 2 = 1 then ys ! (n div 2)
      else (ys ! (n div 2 - 1) + ys ! (n div 2)) / 2)"

text \<open>\<^verbatim>\<open>np.median(np.abs(ar_values - median_ar))\<close>\<close>

definition mad_of :: "real list \<Rightarrow> real" where
  "mad_of xs = np_median (map (\<lambda>v. \<bar>v - np_median xs\<bar>) xs)"

text \<open>
  \<^verbatim>\<open>stats.t.cdf(x, df)\<close>: scipy checks the shape parameter (\<open>df > 0\<close>) and answers
  \<^verbatim>\<open>nan\<close> when the check fails.
\<close>

definition scipy_t_cdf :: "libs \<Rightarrow> real \<Rightarrow> int \<Rightarrow> pyfloat" where
  "scipy_t_cdf L x df = (if df \<le> 0 then NaN else Fin (t_cdf L (nat df) x))"

text \<open>\<^verbatim>\<open>2 * (1 - c)\<close> on a float \<open>c\<close>.\<close>

fun two_sided :: "pyfloat \<Rightarrow> pyfloat" where
  "two_sided (Fin c) = Fin (2 * (1 - c))"
| "two_sided PInf = NInf"
| "two_sided NInf = PInf"
| "two_sided NaN = NaN"

text \<open>
  \<^verbatim>\<open>confidence = 1 - p_val if p_val < 1 else 0.0\<close> followed by
  \<^verbatim>\<open>float(min(confidence, 0.99))\<close>.
\<close>

fun one_minus :: "pyfloat \<Rightarrow> pyfloat" where
  "one_minus (Fin p) = Fin (1 - p)"
| "one_minus PInf = NInf"
| "one_minus NInf = PInf"
| "one_minus NaN = NaN"

text \<open>Python's \<^verbatim>\<open>min(a, b)\<close> keeps \<open>a\<close> unless \<open>b < a\<close>.\<close>

fun py_min :: "pyfloat \<Rightarrow> real \<Rightarrow> pyfloat" where
  "py_min (Fin a) b = (if b < a then Fin b else Fin a)"
| "py_min PInf b = Fin b"
| "py_min NInf b = NInf"
| "py_min NaN b = NaN"

definition confidence_of :: "pyfloat \<Rightarrow> pyfloat" where
  "confidence_of p_val =
     py_min (if f_lt p_val 1 then one_minus p_val else Fin 0) (99 / 100)"

section \<open>pandas helpers\<close>

text \<open>
  \<^verbatim>\<open>Series.pct_change()\<close> on the Close column: the first row has no predecessor and
  gets \<^verbatim>\<open>nan\<close> (\<open>None\<close>), every later row the simple return on the row before.
  Close prices are positive, so the division is by a non-zero price.
\<close>

fun pct_change :: "real list \<Rightarrow> real option list" where
  "pct_change [] = []"
| "pct_change (c # cs) = None # map2 (\<lambda>prev cur. Some ((cur - prev) / prev)) (c # cs) cs"

definition with_return :: "(int \<times> real) list \<Rightarrow> (int \<times> real option) list" where
  "with_return rows = zip (map fst rows) (pct_change (map snd rows))"

text \<open>
  \<^verbatim>\<open>a.intersection(b)\<close> on two indexes: the labels of \<open>a\<close> that occur in \<open>b\<close>, in
  the order of \<open>a\<close>.
\<close>

definition index_intersection :: "int list \<Rightarrow> int list \<Rightarrow> int list" where
  "index_intersection a b = filter (\<lambda>d. d \<in> set b) a"

text \<open>\<^verbatim>\<open>frame.loc[labels]\<close>: for each label in turn, the rows that carry it.\<close>

definition loc :: "(int \<times> 'a) list \<Rightarrow> int list \<Rightarrow> (int \<times> 'a) list" where
  "loc rows labels = concat (map (\<lambda>d. filter (\<lambda>row. fst row = d) rows) labels)"

text \<open>\<^verbatim>\<open>frame.dropna(subset=['return'])\<close>\<close>

fun dropna :: "(int \<times> real option) list \<Rightarrow> frame" where
  "dropna [] = []"
| "dropna ((d, None) # rows) = dropna rows"
| "dropna ((d, Some r) # rows) = (d, r) # dropna rows"

text \<open>
  \<^verbatim>\<open>frame.iloc[-n:]\<close>, Python's slice from a negated bound: the last \<open>n\<close> rows for
  \<open>n > 0\<close>, the whole frame for \<open>n = 0\<close> (\<^verbatim>\<open>-0\<close> is \<^verbatim>\<open>0\<close>), and the frame
  without its first \<open>-n\<close> rows for \<open>n < 0\<close>.
\<close>

definition iloc_from_neg :: "int \<Rightarrow> 'a list \<Rightarrow> 'a list" where
  "iloc_from_neg n rows =
     (if n > 0 then drop (length rows - nat n) rows else drop (nat (- n)) rows)"

text \<open>\<^verbatim>\<open>Series.mean()\<close> and \<^verbatim>\<open>Series.sum()\<close> over the values of a series.\<close>

definition series_sum :: "frame \<Rightarrow> real" where
  "series_sum series = sum_list (map snd series)"

definition series_mean :: "frame \<Rightarrow> real" where
  "series_mean series = series_sum series / real (length series)"

section \<open>Data window loader\<close>

text \<open>
  \<^verbatim>\<open>fetch_data\<close>. Any exception is caught and turned into \<open>False\<close>. On the paths that
  end before the returns are computed the source leaves the frames fetched so far in
  the object; nothing reads them afterwards (\<^verbatim>\<open>run_full_analysis\<close> returns at once),
  and the model leaves the two fields as they were.
\<close>

definition fetch_data :: "libs \<Rightarrow> event_study \<Rightarrow> event_study \<times> bool" where
  "fetch_data L s =
     (let event_date = date_of (event_timestamp s);
          estimation_start = event_date - (estimation_window_days s + 20);
          event_window_end = event_date + (event_window_days s + 5)
      in case history L (ticker s) estimation_start event_window_end of
           Inl e \<Rightarrow> (s, False)
         | Inr stock_raw \<Rightarrow>
             if stock_raw = [] then (s, False)
             else
               (case history L (market_ticker s) estimation_start event_window_end of
                  Inl e \<Rightarrow> (s, False)
                | Inr market_raw \<Rightarrow>
                    if market_raw = [] then (s, False)
                    else
                      let stock = with_return stock_raw;
                          market = with_return market_raw;
                          common_dates = index_intersection (map fst stock) (map fst market);
                          stock' = dropna (loc stock common_dates);
                          market' = dropna (loc market common_dates)
                      in (s\<lparr> stock_data := Some stock', market_data := Some market' \<rparr>,
                          length stock' \<ge> 50)))"

section \<open>Market-model estimator\<close>

text \<open>
  \<^verbatim>\<open>estimate_expected_return\<close> in three steps: the rows of both frames strictly before
  the event window, cut to the last \<^verbatim>\<open>estimation_window_days\<close> rows when the stock
  frame has more (\<open>estimation_rows\<close>); their alignment on the common dates, which gives
  the pair \<^verbatim>\<open>(stock_returns, market_returns)\<close> (\<open>estimation_sample\<close>); the fit.
\<close>

definition estimation_rows :: "event_study \<Rightarrow> frame \<Rightarrow> frame \<Rightarrow> frame \<times> frame" where
  "estimation_rows s sd md =
     (let event_date = date_of (event_timestamp s);
          estimation_end = event_date - event_window_days s;
          estimation_stock = filter (\<lambda>row. fst row < estimation_end) sd;
          estimation_market = filter (\<lambda>row. fst row < estimation_end) md
      in if int (length estimation_stock) > estimation_window_days s
         then (iloc_from_neg (estimation_window_days s) estimation_stock,
               iloc_from_neg (estimation_window_days s) estimation_market)
         else (estimation_stock, estimation_market))"

definition estimation_sample :: "event_study \<Rightarrow> frame \<Rightarrow> frame \<Rightarrow> frame \<times> frame" where
  "estimation_sample s sd md =
     (let (estimation_stock, estimation_market) = estimation_rows s sd md;
          common_dates = index_intersection (map fst estimation_stock) (map fst estimation_market)
      in (loc estimation_stock common_dates, loc estimation_market common_dates))"

definition estimate_expected_return :: "libs \<Rightarrow> event_study \<Rightarrow> string + event_study \<times> real \<times> real" where
  "estimate_expected_return L s =
     (case (stock_data s, market_data s) of
        (Some sd, Some md) \<Rightarrow>
          let (stock_returns, market_returns) = estimation_sample s sd md
          in (case ols_fit L (map snd market_returns) (map snd stock_returns) of
                Inl e \<Rightarrow> Inl e
              | Inr (a, b) \<Rightarrow> Inr (s\<lparr> alpha := Some a, beta := Some b \<rparr>, a, b))
      | _ \<Rightarrow> Inl ''Data not fetched. Call fetch_data() first.'')"

section \<open>Abnormal return calculator\<close>

text \<open>
  The loop of \<^verbatim>\<open>calculate_ar\<close> over the index of the abnormal returns: it stops at the
  first date on or after the event date and reads the value of that row.
\<close>

fun first_on_or_after :: "int \<Rightarrow> frame \<Rightarrow> real option" where
  "first_on_or_after event_date [] = None"
| "first_on_or_after event_date ((d, v) # rows) =
     (if d \<ge> event_date then Some v else first_on_or_after event_date rows)"

definition calculate_ar :: "libs \<Rightarrow> event_study \<Rightarrow> string + event_study \<times> frame" where
  "calculate_ar L s =
     (case (case (alpha s, beta s) of
              (Some a, Some b) \<Rightarrow> Inr (s, a, b)
            | _ \<Rightarrow> estimate_expected_return L s) of
        Inl e \<Rightarrow> Inl e
      | Inr (s1, a, b) \<Rightarrow>
          (case (stock_data s1, market_data s1) of
             (Some sd, Some md) \<Rightarrow>
               let event_date = date_of (event_timestamp s1);
                   window_start = event_date - event_window_days s1;
                   window_end = event_date + event_window_days s1;
                   event_stock = filter (\<lambda>row. fst row \<ge> window_start \<and> fst row \<le> window_end) sd;
                   event_market = filter (\<lambda>row. fst row \<ge> window_start \<and> fst row \<le> window_end) md;
                   common_dates = index_intersection (map fst event_stock) (map fst event_market)
               in if length common_dates = 0 then Inr (s1, [])
                  else
                    let stock_returns = loc event_stock common_dates;
                        market_returns = loc event_market common_dates;
                        expected_returns = map (\<lambda>row. (fst row, a + b * snd row)) market_returns;
                        abnormal_returns =
                          map2 (\<lambda>actual expected. (fst actual, snd actual - snd expected))
                            stock_returns expected_returns
                    in Inr (s1\<lparr> ar_series := Some abnormal_returns,
                                 ar := Some (case first_on_or_after event_date abnormal_returns of
                                               Some v \<Rightarrow> v
                                             | None \<Rightarrow> series_mean abnormal_returns) \<rparr>,
                            abnormal_returns)
           | _ \<Rightarrow> Inl ''NoneType object is not subscriptable''))"

definition calculate_car :: "libs \<Rightarrow> (int \<times> int) option \<Rightarrow> event_study \<Rightarrow> string + event_study \<times> real" where
  "calculate_car L window s =
     (case (case ar_series s of
              None \<Rightarrow> (case calculate_ar L s of Inl e \<Rightarrow> Inl e | Inr (s1, series) \<Rightarrow> Inr s1)
            | Some series \<Rightarrow> Inr s) of
        Inl e \<Rightarrow> Inl e
      | Inr s1 \<Rightarrow>
          (case ar_series s1 of
             None \<Rightarrow> Inl ''NoneType object has no attribute''
           | Some series \<Rightarrow>
               let c = (case window of
                          Some (days_before, days_after) \<Rightarrow>
                            let event_date = date_of (event_timestamp s1);
                                window_start = event_date - days_before;
                                window_end = event_date + days_after
                            in series_sum
                                 (filter (\<lambda>row. fst row \<ge> window_start \<and> fst row \<le> window_end) series)
                        | None \<Rightarrow> series_sum series)
               in Inr (s1\<lparr> car := Some c \<rparr>, c)))"

section \<open>Significance test and outlier flag\<close>

record test_result =
  r_t_statistic :: pyfloat
  r_p_value :: pyfloat
  r_is_significant :: bool
  r_confidence :: pyfloat
  r_method :: "string option"

definition statistical_test :: "libs \<Rightarrow> bool \<Rightarrow> event_study \<Rightarrow> event_study \<times> test_result" where
  "statistical_test L use_robust s =
     (case ar_series s of
        None \<Rightarrow> (s, \<lparr> r_t_statistic = Fin 0, r_p_value = Fin 1, r_is_significant = False,
                      r_confidence = Fin 0, r_method = None \<rparr>)
      | Some series \<Rightarrow>
          if length series = 0 then
            (s, \<lparr> r_t_statistic = Fin 0, r_p_value = Fin 1, r_is_significant = False,
                  r_confidence = Fin 0, r_method = None \<rparr>)
          else
            let ar_values = map snd series in
            if use_robust then
              let median_ar = np_median ar_values;
                  mad = np_median (map (\<lambda>v. \<bar>v - median_ar\<bar>) ar_values);
                  t_stat = (if mad > 0
                            then median_ar / ((14826 / 10000 * mad) / sqrt (real (length ar_values)))
                            else 0);
                  df = int (length ar_values) - 1;
                  p_val = two_sided (scipy_t_cdf L \<bar>t_stat\<bar> df)
              in (s\<lparr> t_statistic := Some (Fin t_stat), p_value := Some p_val \<rparr>,
                  \<lparr> r_t_statistic = Fin t_stat, r_p_value = p_val,
                    r_is_significant = f_lt p_val SIGNIFICANCE_LEVEL,
                    r_confidence = confidence_of p_val,
                    r_method = Some ''robust'' \<rparr>)
            else
              let (t_stat, p_val) = ttest_1samp L ar_values
              in (s\<lparr> t_statistic := Some t_stat, p_value := Some p_val \<rparr>,
                  \<lparr> r_t_statistic = t_stat, r_p_value = p_val,
                    r_is_significant = f_lt p_val SIGNIFICANCE_LEVEL,
                    r_confidence = confidence_of p_val,
                    r_method = None \<rparr>))"

definition filter_outliers :: "real \<Rightarrow> event_study \<Rightarrow> bool" where
  "filter_outliers threshold s =
     (case ar_series s of
        None \<Rightarrow> False
      | Some series \<Rightarrow>
          if length series < 3 then False
          else
            let ar_values = map snd series;
                median_ar = np_median ar_values;
                mad = np_median (map (\<lambda>v. \<bar>v - median_ar\<bar>) ar_values)
            in if mad = 0 then False
               else (case ar s of
                       None \<Rightarrow> False
                     | Some a \<Rightarrow> \<bar>a - median_ar\<bar> > threshold * mad))"

section \<open>Result assembler\<close>

text \<open>
  \<^verbatim>\<open>round(x, k)\<close> on a float: the nearest multiple of \<open>10\<^sup>-\<^sup>k\<close>, a tie going to the
  even one. Non-finite floats are returned as they are.
\<close>

definition round_half_even :: "real \<Rightarrow> int" where
  "round_half_even y =
     (let f = \<lfloor>y\<rfloor>; d = y - of_int f in
      if d < 1 / 2 then f
      else if d > 1 / 2 then f + 1
      else if even f then f else f + 1)"

definition py_round :: "real \<Rightarrow> nat \<Rightarrow> real" where
  "py_round x k = of_int (round_half_even (x * 10 ^ k)) / 10 ^ k"

fun py_round_f :: "pyfloat \<Rightarrow> nat \<Rightarrow> pyfloat" where
  "py_round_f (Fin x) k = Fin (py_round x k)"
| "py_round_f PInf k = PInf"
| "py_round_f NInf k = NInf"
| "py_round_f NaN k = NaN"

text \<open>Decimal digits of a natural number, for \<^verbatim>\<open>format\<close>.\<close>

definition digit_char :: "nat \<Rightarrow> char" where
  "digit_char n = ''0123456789'' ! n"

function show_nat :: "nat \<Rightarrow> string" where
  "show_nat n = (if n < 10 then [digit_char n] else show_nat (n div 10) @ [digit_char (n mod 10)])"
  by pat_completeness auto
termination
  by (relation "measure id") auto

text \<open>
  \<^verbatim>\<open>f"{x:.kf}"\<close>: fixed-point notation with \<open>k\<close> digits after the point, rounded as
  above; \<open>k\<close> is 2 or 4 in the module.
\<close>

definition format_fixed :: "nat \<Rightarrow> real \<Rightarrow> string" where
  "format_fixed k x =
     (let n = nat (round_half_even (\<bar>x\<bar> * 10 ^ k));
          frac = show_nat (n mod 10 ^ k)
      in (if x < 0 then ''-'' else '''') @ show_nat (n div 10 ^ k) @ ''.''
         @ replicate (k - length frac) (CHR ''0'') @ frac)"

fun format_fixed_f :: "nat \<Rightarrow> pyfloat \<Rightarrow> string" where
  "format_fixed_f k (Fin x) = format_fixed k x"
| "format_fixed_f k PInf = ''inf''"
| "format_fixed_f k NInf = ''-inf''"
| "format_fixed_f k NaN = ''nan''"

text \<open>\<^verbatim>\<open>str.capitalize()\<close> on ASCII text.\<close>

definition upper_char :: "char \<Rightarrow> char" where
  "upper_char c =
     (case map_of (zip ''abcdefghijklmnopqrstuvwxyz'' ''ABCDEFGHIJKLMNOPQRSTUVWXYZ'') c of
        Some u \<Rightarrow> u
      | None \<Rightarrow> c)"

definition lower_char :: "char \<Rightarrow> char" where
  "lower_char c =
     (case map_of (zip ''ABCDEFGHIJKLMNOPQRSTUVWXYZ'' ''abcdefghijklmnopqrstuvwxyz'') c of
        Some l \<Rightarrow> l
      | None \<Rightarrow> c)"

fun capitalize :: "string \<Rightarrow> string" where
  "capitalize [] = []"
| "capitalize (c # cs) = upper_char c # map lower_char cs"

text \<open>The warning sign U+26A0 U+FE0F of the outlier suffix, in UTF-8.\<close>

definition warning_sign :: string where
  "warning_sign = [CHR 0xE2, CHR 0x9A, CHR 0xA0, CHR 0xEF, CHR 0xB8, CHR 0x8F]"

definition generate_summary :: "event_study \<Rightarrow> string" where
  "generate_summary s =
     (case ar s of
        None \<Rightarrow> ''Insufficient data for analysis''
      | Some a \<Rightarrow>
          let direction = (if a > 0 then ''positive'' else ''negative'');
              magnitude = \<bar>a * 100\<bar>;
              summary1 = capitalize direction @ '' abnormal return of ''
                         @ format_fixed 2 magnitude @ ''%. '';
              summary2 = summary1 @
                (case p_value s of
                   None \<Rightarrow> ''Not statistically significant. ''
                 | Some p \<Rightarrow>
                     if f_lt p SIGNIFICANCE_LEVEL
                     then ''Statistically significant (p='' @ format_fixed_f 4 p @ ''). ''
                     else ''Not statistically significant. '')
          in if filter_outliers 3 s
             then summary2 @ warning_sign @ '' Flagged as potential outlier.''
             else summary2)"

record error_result =
  err_ticker :: string
  err_event_timestamp :: datetime
  err_error :: string
  err_ar :: real
  err_car :: real
  err_confidence :: real
  err_is_significant :: bool

record full_result =
  res_ticker :: string
  res_event_timestamp :: datetime
  res_event_date :: int
  res_alpha :: real
  res_beta :: real
  res_ar :: real
  res_ar_percentage :: real
  res_car :: real
  res_car_percentage :: real
  res_t_statistic :: pyfloat
  res_p_value :: pyfloat
  res_is_significant :: bool
  res_confidence :: pyfloat
  res_is_outlier :: bool
  res_num_observations :: nat
  res_estimation_window_days :: int
  res_direction :: string
  res_summary :: string

datatype analysis = Failed (failure: error_result) | Completed (completed: full_result)

definition error_dict :: "event_study \<Rightarrow> string \<Rightarrow> analysis" where
  "error_dict s msg =
     Failed \<lparr> err_ticker = ticker s, err_event_timestamp = event_timestamp s,
              err_error = msg, err_ar = 0, err_car = 0, err_confidence = 0,
              err_is_significant = False \<rparr>"

text \<open>
  The body of the \<^verbatim>\<open>try\<close> block of \<^verbatim>\<open>run_full_analysis\<close>, after a successful fetch:
  the state it leaves and the dictionary it returns, or the message of the exception
  that leaves the block.
\<close>

definition analysis_body :: "libs \<Rightarrow> event_study \<Rightarrow> string + event_study \<times> analysis" where
  "analysis_body L s0 =
     (case estimate_expected_return L s0 of
        Inl e \<Rightarrow> Inl e
      | Inr (s1, a, b) \<Rightarrow>
          (case calculate_ar L s1 of
             Inl e \<Rightarrow> Inl e
           | Inr (s2, series) \<Rightarrow>
               if length series = 0 then Inr (s2, error_dict s2 ''No data in event window'')
               else
                 (case calculate_car L None s2 of
                    Inl e \<Rightarrow> Inl e
                  | Inr (s3, c) \<Rightarrow>
                      let (s4, test_results) = statistical_test L True s3;
                          is_outlier = filter_outliers 3 s4
                      in (case ar s4 of
                            None \<Rightarrow> Inl ''type NoneType doesn't define __round__ method''
                          | Some x \<Rightarrow>
                              Inr (s4, Completed
                                \<lparr> res_ticker = ticker s4,
                                  res_event_timestamp = event_timestamp s4,
                                  res_event_date = date_of (event_timestamp s4),
                                  res_alpha = py_round a 6,
                                  res_beta = py_round b 4,
                                  res_ar = py_round x 6,
                                  res_ar_percentage = py_round (x * 100) 4,
                                  res_car = py_round c 6,
                                  res_car_percentage = py_round (c * 100) 4,
                                  res_t_statistic = r_t_statistic test_results,
                                  res_p_value = r_p_value test_results,
                                  res_is_significant = r_is_significant test_results,
                                  res_confidence = py_round_f (r_confidence test_results) 3,
                                  res_is_outlier = is_outlier,
                                  res_num_observations = length series,
                                  res_estimation_window_days = estimation_window_days s4,
                                  res_direction = (if x > 0 then ''positive''
                                                   else if x < 0 then ''negative''
                                                   else ''neutral''),
                                  res_summary = generate_summary s4 \<rparr>)))))"

definition run_full_analysis :: "libs \<Rightarrow> event_study \<Rightarrow> analysis" where
  "run_full_analysis L s =
     (case fetch_data L s of
        (s0, False) \<Rightarrow> error_dict s ''Failed to fetch data''
      | (s0, True) \<Rightarrow>
          (case analysis_body L s0 of
             Inl e \<Rightarrow> error_dict s0 (''Analysis failed: '' @ e)
           | Inr (s', result) \<Rightarrow> result))"

section \<open>Sample inputs\<close>

text \<open>
  Concrete libraries and studies on which the theorems below are evaluated.
  \<^item> \<open>demo_history\<close> answers with one row per day. The index \<^verbatim>\<open>SPY\<close> closes at 100 on
    even and 125 on odd days up to day 98 and stays at 100 afterwards; \<^verbatim>\<open>TEST\<close>
    follows it up to day 98 and then closes at 101, 101 and 105.04. Any other ticker
    raises.
  \<^item> \<open>ols_textbook\<close> is ordinary least squares with an intercept in closed form
    (slope: co-moment over the regressor's second moment), for a regressor that is
    not constant.
  \<^item> \<open>student_t_two\<close> is the distribution function of Student's t with two degrees
    of freedom, \<open>1/2 + x / (2 sqrt (2 + x\<^sup>2))\<close>: the sample studies have three days in
    their event window.
\<close>

definition market_close :: "int \<Rightarrow> real" where
  "market_close d = (if d \<ge> 98 then 100 else if even d then 100 else 125)"

definition stock_close :: "int \<Rightarrow> real" where
  "stock_close d =
     (if d \<le> 98 then market_close d
      else if d = 99 then 101
      else if d = 100 then 101
      else 10504 / 100)"

definition demo_history :: "string \<Rightarrow> int \<Rightarrow> int \<Rightarrow> string + (int \<times> real) list" where
  "demo_history t a b =
     (if t = ''SPY'' then Inr (map (\<lambda>d. (d, market_close d)) [a..b])
      else if t = ''TEST'' then Inr (map (\<lambda>d. (d, stock_close d)) [a..b])
      else Inl ''No data found, symbol may be delisted'')"

definition ols_textbook :: "real list \<Rightarrow> real list \<Rightarrow> string + real \<times> real" where
  "ols_textbook x y =
     (let n = real (length x);
          mx = sum_list x / n; my = sum_list y / n;
          sxx = sum_list (map (\<lambda>u. (u - mx) * (u - mx)) x);
          sxy = sum_list (map2 (\<lambda>u v. (u - mx) * (v - my)) x y)
      in if length x < 2 \<or> sxx = 0 then Inl ''degenerate regression''
         else Inr (my - sxy / sxx * mx, sxy / sxx))"

definition student_t_two :: "nat \<Rightarrow> real \<Rightarrow> real" where
  "student_t_two df x = 1 / 2 + x / (2 * sqrt (2 + x * x))"

definition demo_libs :: libs where
  "demo_libs = \<lparr> history = demo_history, ols_fit = ols_textbook,
                  t_cdf = student_t_two, ttest_1samp = (\<lambda>xs. (NaN, NaN)) \<rparr>"

definition demo_study :: event_study where
  "demo_study = init (100, 0) ''TEST'' 30 1 ''SPY''"

definition demo_market_frame :: frame where
  "demo_market_frame =
     map (\<lambda>d. (d, if d \<ge> 99 then 0 else if even d then - (1 / 5) else 1 / 4)) [51..106]"

definition demo_stock_frame :: frame where
  "demo_stock_frame =
     map (\<lambda>d. (d, if d \<ge> 102 then 0 else if d = 101 then 1 / 25 else if d = 100 then 0
                    else if d = 99 then 1 / 100 else if even d then - (1 / 5) else 1 / 4))
       [51..106]"

definition demo_fetched :: event_study where
  "demo_fetched =
     demo_study\<lparr> stock_data := Some demo_stock_frame, market_data := Some demo_market_frame \<rparr>"

definition demo_series :: frame where
  "demo_series = [(99, 1 / 100), (100, 0), (101, 1 / 25)]"

text \<open>A study whose abnormal returns were set by hand, as the unit tests do.\<close>

definition three_days :: event_study where
  "three_days = (init (100, 0) ''TEST'' 252 3 ''SPY'')\<lparr> ar_series := Some demo_series \<rparr>"

text \<open>An event window with a single trading day.\<close>

definition one_day :: event_study where
  "one_day = (init (0, 0) ''TEST'' 252 3 ''SPY'')\<lparr> ar_series := Some [(0, 1 / 100)] \<rparr>"

text \<open>The series of the outlier unit test, with the event day at the outlier.\<close>

definition outlier_series :: frame where
  "outlier_series = [(0, 1 / 1000), (1, - (2 / 1000)), (2, 15 / 10000), (3, 15 / 100),
                     (4, - (1 / 1000)), (5, 2 / 1000), (6, - (15 / 10000))]"

definition outlier_study :: event_study where
  "outlier_study = (init (3, 0) ''TEST'' 252 3 ''SPY'')
     \<lparr> ar := Some (15 / 100), ar_series := Some outlier_series \<rparr>"

text \<open>
  Frames set by hand around an event on day 100. In \<open>gap_study\<close> day 100 itself has
  no row (a holiday); in \<open>late_study\<close> the data end before the event.
\<close>

definition gap_study :: event_study where
  "gap_study = (init (100, 0) ''TEST'' 252 3 ''SPY'')
     \<lparr> stock_data := Some [(98, 1 / 100), (99, 3 / 100), (101, 1 / 50), (102, 0)],
       market_data := Some [(98, 0), (99, 1 / 100), (101, 0), (102, 0)],
       beta := Some 1, alpha := Some 0 \<rparr>"

definition gap_series :: frame where
  "gap_series = [(98, 1 / 100), (99, 1 / 50), (101, 1 / 50), (102, 0)]"

definition late_study :: event_study where
  "late_study = (init (100, 0) ''TEST'' 252 3 ''SPY'')
     \<lparr> stock_data := Some [(97, 1 / 100), (98, 3 / 100)],
       market_data := Some [(97, 0), (98, 0)],
       beta := Some 1, alpha := Some 0 \<rparr>"

definition late_series :: frame where
  "late_series = [(97, 1 / 100), (98, 3 / 100)]"

text \<open>
  Frames for the estimation window: five days before the boundary (day 99 for an event
  on day 100 with a one-day window) and two days inside the event window.
\<close>

definition est_stock :: frame where
  "est_stock = [(94, 1 / 100), (95, 2 / 100), (96, 3 / 100), (97, 4 / 100), (98, 5 / 100),
                (99, 6 / 100), (100, 7 / 100)]"

definition est_market :: frame where
  "est_market = [(94, 1 / 100), (95, 1 / 100), (96, 2 / 100), (97, 2 / 100), (98, 3 / 100),
                 (99, 3 / 100), (100, 4 / 100)]"


definition zero_window :: event_study where
  "zero_window = (init (100, 0) ''TEST'' 0 1 ''SPY'')
     \<lparr> stock_data := Some est_stock, market_data := Some est_market \<rparr>"

text \<open>The stages of the sample run and its result.\<close>

definition demo_estimation :: frame where
  "demo_estimation = map (\<lambda>d. (d, if even d then - (1 / 5) else 1 / 4)) [69..98]"

definition demo_estimated :: event_study where
  "demo_estimated = demo_fetched\<lparr> alpha := Some 0, beta := Some 1 \<rparr>"

definition demo_abnormal :: event_study where
  "demo_abnormal = demo_estimated\<lparr> ar_series := Some demo_series, ar := Some 0 \<rparr>"

definition demo_t :: real where
  "demo_t = (1 / 100) / ((14826 / 10000 * (1 / 100)) / sqrt 3)"

definition demo_p :: real where
  "demo_p = 2 * (1 - student_t_two 2 \<bar>demo_t\<bar>)"

definition demo_final :: event_study where
  "demo_final = demo_abnormal\<lparr> car := Some (1 / 20), p_value := Some (Fin demo_p),
                                t_statistic := Some (Fin demo_t) \<rparr>"

definition demo_result :: full_result where
  "demo_result =
     \<lparr> res_ticker = ''TEST'', res_event_timestamp = (100, 0), res_event_date = 100,
       res_alpha = 0, res_beta = 1, res_ar = 0, res_ar_percentage = 0,
       res_car = 1 / 20, res_car_percentage = 5,
       res_t_statistic = Fin demo_t, res_p_value = Fin demo_p,
       res_is_significant = False, res_confidence = Fin (637 / 1000),
       res_is_outlier = False, res_num_observations = 3,
       res_estimation_window_days = 30, res_direction = ''neutral'',
       res_summary = ''Negative abnormal return of 0.00%. Not statistically significant. '' \<rparr>"

text \<open>A study of a ticker the provider does not know, far in the future.\<close>

definition unknown_study :: event_study where
  "unknown_study = init (47482, 0) ''INVALIDTICKER'' 252 3 ''SPY''"

section \<open>Structured error results\<close>

text \<open>
  The shape of the failure record of \<^verbatim>\<open>run_full_analysis\<close>: a non-empty message,
  zeroed abnormal returns and confidence, and no significance.
\<close>

definition structured_error :: "analysis \<Rightarrow> bool" where
  "structured_error res =
     (case res of
        Failed e \<Rightarrow> err_error e \<noteq> [] \<and> err_ar e = 0 \<and> err_car e = 0
                    \<and> err_confidence e = 0 \<and> \<not> err_is_significant e
      | Completed r \<Rightarrow> False)"

section \<open>Properties of the significance test\<close>

lemma confidence_of_cases:
  "confidence_of p =
     (case p of Fin x \<Rightarrow> (if x < 1 then Fin (min (1 - x) (99 / 100)) else Fin 0)
              | NInf \<Rightarrow> Fin (99 / 100)
              | _ \<Rightarrow> Fin 0)"
  by (cases p) (auto simp: confidence_of_def min_def)

lemma confidence_of_range: "\<exists>c. confidence_of p = Fin c \<and> 0 \<le> c \<and> c \<le> 99 / 100"
proof (cases p)
  case (Fin x)
  show ?thesis
  proof (cases "x < 1")
    case True
    with Fin have "confidence_of p = Fin (min (1 - x) (99 / 100))"
      by (simp add: confidence_of_cases)
    moreover have "0 \<le> min (1 - x) (99 / 100)" using True by simp
    moreover have "min (1 - x) (99 / 100) \<le> 99 / 100" by (rule min.cobounded2)
    ultimately show ?thesis by blast
  next
    case False
    with Fin have "confidence_of p = Fin 0" by (simp add: confidence_of_cases)
    then show ?thesis by simp
  qed
next
  case PInf
  then have "confidence_of p = Fin 0" by (simp add: confidence_of_cases)
  then show ?thesis by simp
next
  case NInf
  then have "confidence_of p = Fin (99 / 100)" by (simp add: confidence_of_cases)
  moreover have "(0::real) \<le> 99 / 100" by simp
  ultimately show ?thesis by blast
next
  case NaN
  then have "confidence_of p = Fin 0" by (simp add: confidence_of_cases)
  then show ?thesis by simp
qed

lemma test_result_robust:
  assumes "ar_series s = Some series" "series \<noteq> []"
  shows "snd (statistical_test L True s) =
     (let vals = map snd series;
          t = (if mad_of vals > 0
               then np_median vals / ((14826 / 10000 * mad_of vals) / sqrt (real (length vals)))
               else 0);
          p = two_sided (scipy_t_cdf L \<bar>t\<bar> (int (length vals) - 1))
      in \<lparr> r_t_statistic = Fin t, r_p_value = p,
           r_is_significant = f_lt p SIGNIFICANCE_LEVEL,
           r_confidence = confidence_of p, r_method = Some ''robust'' \<rparr>)"
  using assms by (simp add: statistical_test_def Let_def mad_of_def)

lemma test_result_standard:
  assumes "ar_series s = Some series" "series \<noteq> []"
  shows "snd (statistical_test L False s) =
     (let p = snd (ttest_1samp L (map snd series))
      in \<lparr> r_t_statistic = fst (ttest_1samp L (map snd series)), r_p_value = p,
           r_is_significant = f_lt p SIGNIFICANCE_LEVEL,
           r_confidence = confidence_of p, r_method = None \<rparr>)"
  using assms by (simp add: statistical_test_def Let_def split: prod.split)

lemma test_result_empty:
  assumes "ar_series s = None \<or> ar_series s = Some []"
  shows "statistical_test L b s =
     (s, \<lparr> r_t_statistic = Fin 0, r_p_value = Fin 1, r_is_significant = False,
           r_confidence = Fin 0, r_method = None \<rparr>)"
  using assms by (auto simp: statistical_test_def)

lemma test_result_confidence:
  "r_confidence (snd (statistical_test L b s)) = confidence_of (r_p_value (snd (statistical_test L b s)))"
proof (cases "ar_series s = None \<or> ar_series s = Some []")
  case True
  then show ?thesis by (simp add: test_result_empty confidence_of_cases)
next
  case False
  then obtain series where s: "ar_series s = Some series" "series \<noteq> []" by auto
  show ?thesis
    by (cases b) (simp_all add: test_result_robust[OF s] test_result_standard[OF s] Let_def)
qed

lemma np_median_single: "np_median [x] = x"
  by (simp add: np_median_def)

lemma mad_pos_length:
  assumes "xs \<noteq> []" "mad_of xs > 0"
  shows "2 \<le> length xs"
proof (rule ccontr)
  assume "\<not> 2 \<le> length xs"
  with assms(1) have "length xs = 1" by (cases xs) (auto simp: not_le)
  then obtain x where "xs = [x]" by (cases xs) auto
  with assms(2) show False by (simp add: np_median_def mad_of_def)
qed

text \<open>
  When the deviation is zero and the window has at least two days, the robust test
  answers the degenerate statistic, for any library whose t distribution is symmetric
  about zero (\<open>t_cdf df 0 = 1/2\<close>).
\<close>

lemma statistical_test_zero_mad:
  assumes "ar_series s = Some series" and "2 \<le> length series"
    and "mad_of (map snd series) = 0"
    and "t_cdf L (length series - 1) 0 = 1 / 2"
  shows "snd (statistical_test L True s)
     = \<lparr> r_t_statistic = Fin 0, r_p_value = Fin 1, r_is_significant = False,
         r_confidence = Fin 0, r_method = Some ''robust'' \<rparr>"
proof -
  have ne: "series \<noteq> []" using assms(2) by auto
  have df: "\<not> int (length series) - 1 \<le> 0" "nat (int (length series) - 1) = length series - 1"
    using assms(2) by simp_all
  show ?thesis
    using assms(3,4) df
    by (simp add: test_result_robust[OF assms(1) ne] Let_def scipy_t_cdf_def
        confidence_of_def SIGNIFICANCE_LEVEL_def)
qed

text \<open>
  Claim C1. A series whose median absolute deviation is zero should give t = 0, p = 1,
  not significant, confidence 0. A window with a single trading day has deviation zero
  and zero degrees of freedom: the p-value computed by the code is \<^verbatim>\<open>nan\<close>, not 1.
\<close>

theorem statistical_test_single_observation:
  "snd (statistical_test L True one_day)
     = \<lparr> r_t_statistic = Fin 0, r_p_value = NaN, r_is_significant = False,
         r_confidence = Fin 0, r_method = Some ''robust'' \<rparr>"
  by (simp add: statistical_test_def one_day_def init_def Let_def np_median_def
      scipy_t_cdf_def confidence_of_def)

text \<open>
  Claim C2. For a non-empty series with positive median absolute deviation, the robust
  test returns the statistic \<open>median / ((1.4826 * MAD) / sqrt n)\<close> and the two-sided
  p-value \<open>2 * (1 - F(|t|))\<close> of Student's t with \<open>n - 1\<close> degrees of freedom, and
  \<open>n - 1\<close> is at least one.
\<close>

theorem statistical_test_robust_statistic:
  assumes "ar_series s = Some series" and "series \<noteq> []"
    and "mad_of (map snd series) > 0"
  shows "r_t_statistic (snd (statistical_test L True s))
           = Fin (np_median (map snd series)
                  / ((14826 / 10000 * mad_of (map snd series)) / sqrt (real (length series))))
       \<and> r_p_value (snd (statistical_test L True s))
           = Fin (2 * (1 - t_cdf L (length series - 1)
                \<bar>np_median (map snd series)
                  / ((14826 / 10000 * mad_of (map snd series)) / sqrt (real (length series)))\<bar>))
       \<and> 1 \<le> length series - 1"
proof -
  have "2 \<le> length (map snd series)"
    using assms(2,3) by (intro mad_pos_length) simp_all
  then have n: "2 \<le> length series" by simp
  then have df: "\<not> int (length series) - 1 \<le> 0" "nat (int (length series) - 1) = length series - 1"
    by simp_all
  show ?thesis
    using assms(3) n df
    by (simp add: test_result_robust[OF assms(1,2)] Let_def scipy_t_cdf_def)
qed

lemma demo_series_median: "np_median (map snd demo_series) = 1 / 100"
  by (simp add: demo_series_def np_median_def)

lemma demo_series_mad: "mad_of (map snd demo_series) = 1 / 100"
  by (simp add: mad_of_def demo_series_median) (simp add: demo_series_def np_median_def)

theorem statistical_test_robust_statistic_witness:
  "ar_series three_days = Some demo_series \<and> demo_series \<noteq> []
   \<and> mad_of (map snd demo_series) > 0
   \<and> r_t_statistic (snd (statistical_test demo_libs True three_days))
       = Fin ((1 / 100) / ((14826 / 10000 * (1 / 100)) / sqrt 3))
   \<and> r_p_value (snd (statistical_test demo_libs True three_days))
       = Fin (2 * (1 - student_t_two 2 \<bar>(1 / 100) / ((14826 / 10000 * (1 / 100)) / sqrt 3)\<bar>))"
proof -
  have h1: "ar_series three_days = Some demo_series"
    by (simp add: three_days_def init_def)
  have h2: "demo_series \<noteq> []" by (simp add: demo_series_def)
  have h3: "mad_of (map snd demo_series) > 0" by (simp add: demo_series_mad)
  have n: "length demo_series = 3" by (simp add: demo_series_def)
  have l: "t_cdf demo_libs = student_t_two" by (simp add: demo_libs_def)
  show ?thesis
    using statistical_test_robust_statistic[OF h1 h2 h3, of demo_libs] h1 h2 h3
    by (simp add: demo_series_median demo_series_mad n l)
qed

text \<open>
  Claim C5. \<^verbatim>\<open>filter_outliers(threshold)\<close> is true exactly when the series has at least
  three observations, its median absolute deviation is not zero, and the event-day
  abnormal return lies more than \<open>threshold\<close> deviations from the median.
\<close>

theorem filter_outliers_iff:
  "filter_outliers threshold s \<longleftrightarrow>
     (\<exists>series a. ar_series s = Some series \<and> ar s = Some a \<and> 3 \<le> length series
        \<and> mad_of (map snd series) \<noteq> 0
        \<and> \<bar>a - np_median (map snd series)\<bar> > threshold * mad_of (map snd series))"
  by (auto simp: filter_outliers_def Let_def mad_of_def split: option.splits)

theorem filter_outliers_iff_witness:
  "filter_outliers 3 outlier_study \<and> \<not> filter_outliers 3 one_day \<and> \<not> filter_outliers 3 three_days"
proof -
  have "ar_series outlier_study = Some outlier_series \<and> ar outlier_study = Some (15 / 100)
      \<and> 3 \<le> length outlier_series \<and> mad_of (map snd outlier_series) \<noteq> 0
      \<and> \<bar>15 / 100 - np_median (map snd outlier_series)\<bar> > 3 * mad_of (map snd outlier_series)"
    by (simp add: outlier_study_def outlier_series_def init_def mad_of_def np_median_def)
  then have a: "filter_outliers 3 outlier_study"
    unfolding filter_outliers_iff by blast
  have b: "\<not> filter_outliers 3 one_day"
    unfolding filter_outliers_iff by (simp add: one_day_def init_def)
  have c: "\<not> filter_outliers 3 three_days"
    unfolding filter_outliers_iff by (simp add: three_days_def init_def)
  from a b c show ?thesis by simp
qed

text \<open>
  Claim C10. In both modes the confidence returned by \<^verbatim>\<open>statistical_test\<close> is
  \<open>min (1 - p) 0.99\<close> when \<open>p < 1\<close> and 0 otherwise; it is a finite number of
  \<open>[0, 0.99]\<close>, below 1.
\<close>

theorem statistical_test_confidence:
  "r_confidence (snd (statistical_test L use_robust s))
     = (case r_p_value (snd (statistical_test L use_robust s)) of
          Fin p \<Rightarrow> (if p < 1 then Fin (min (1 - p) (99 / 100)) else Fin 0)
        | NInf \<Rightarrow> Fin (99 / 100)
        | _ \<Rightarrow> Fin 0)
   \<and> (\<exists>c. r_confidence (snd (statistical_test L use_robust s)) = Fin c \<and> 0 \<le> c \<and> c \<le> 99 / 100 \<and> c < 1)"
proof -
  let ?r = "snd (statistical_test L use_robust s)"
  have eq: "r_confidence ?r = confidence_of (r_p_value ?r)" by (rule test_result_confidence)
  obtain c where c: "confidence_of (r_p_value ?r) = Fin c" "0 \<le> c" "c \<le> 99 / 100"
    using confidence_of_range by blast
  then have "c < 1" by simp
  with c eq show ?thesis by (simp add: confidence_of_cases[symmetric])
qed

section \<open>Properties of the abnormal return calculator\<close>

lemma first_on_or_after_hit:
  "i < length xs \<Longrightarrow> fst (xs ! i) \<ge> ev \<Longrightarrow> \<forall>j<i. fst (xs ! j) < ev
     \<Longrightarrow> first_on_or_after ev xs = Some (snd (xs ! i))"
proof (induction xs arbitrary: i)
  case Nil
  then show ?case by simp
next
  case (Cons row xs)
  obtain d v where row: "row = (d, v)" by (cases row)
  show ?case
  proof (cases i)
    case 0
    with Cons.prems row show ?thesis by simp
  next
    case (Suc k)
    with Cons.prems have "fst ((row # xs) ! 0) < ev" by blast
    with row have d: "\<not> d \<ge> ev" by simp
    have "first_on_or_after ev xs = Some (snd (xs ! k))"
    proof (rule Cons.IH)
      show "k < length xs" using Cons.prems(1) Suc by simp
      show "ev \<le> fst (xs ! k)" using Cons.prems(2) Suc by simp
      show "\<forall>j<k. fst (xs ! j) < ev"
      proof (intro allI impI)
        fix j assume "j < k"
        then have "Suc j < i" using Suc by simp
        with Cons.prems(3) have "fst ((row # xs) ! Suc j) < ev" by blast
        then show "fst (xs ! j) < ev" by simp
      qed
    qed
    with d row Suc show ?thesis by simp
  qed
qed

lemma first_on_or_after_none:
  "\<forall>row\<in>set xs. fst row < ev \<Longrightarrow> first_on_or_after ev xs = None"
  by (induction xs) auto

lemma estimate_keeps_fields:
  assumes "estimate_expected_return L s = Inr (s1, a, b)"
  shows "s1 = s\<lparr> alpha := Some a, beta := Some b \<rparr>"
  using assms
  by (auto simp: estimate_expected_return_def Let_def
      split: option.splits prod.splits sum.splits)

lemma calculate_ar_result:
  assumes "calculate_ar L s = Inr (s', series)" and "series \<noteq> []"
  shows "ar_series s' = Some series
       \<and> ar s' = Some (case first_on_or_after (date_of (event_timestamp s)) series of
                         Some v \<Rightarrow> v | None \<Rightarrow> series_mean series)
       \<and> event_timestamp s' = event_timestamp s"
proof -
  obtain s1 a b where pre:
    "(case (alpha s, beta s) of (Some a, Some b) \<Rightarrow> Inr (s, a, b)
        | _ \<Rightarrow> estimate_expected_return L s) = Inr (s1, a, b)"
    using assms(1) by (auto simp: calculate_ar_def split: sum.splits)
  have ts: "event_timestamp s1 = event_timestamp s"
    using pre by (auto split: option.splits dest: estimate_keeps_fields)
  show ?thesis
    using assms pre ts
    by (auto simp: calculate_ar_def Let_def split: option.splits if_splits)
qed


text \<open>
  Claim C4. For a non-empty series returned by \<^verbatim>\<open>calculate_ar\<close>, the stored event-day
  abnormal return is the value of the first row dated on or after the event date; when
  every row is dated before the event, it is the arithmetic mean of the series.
\<close>

theorem calculate_ar_event_day:
  assumes "calculate_ar L s = Inr (s', series)" and "series \<noteq> []"
  shows "(\<forall>i<length series.
            fst (series ! i) \<ge> date_of (event_timestamp s)
            \<and> (\<forall>j<i. fst (series ! j) < date_of (event_timestamp s))
            \<longrightarrow> ar s' = Some (snd (series ! i)))
       \<and> ((\<forall>row\<in>set series. fst row < date_of (event_timestamp s))
            \<longrightarrow> ar s' = Some (sum_list (map snd series) / real (length series)))"
proof -
  note r = calculate_ar_result[OF assms]
  show ?thesis
  proof (intro conjI allI impI)
    fix i assume "i < length series"
      and "fst (series ! i) \<ge> date_of (event_timestamp s)
           \<and> (\<forall>j<i. fst (series ! j) < date_of (event_timestamp s))"
    then have "first_on_or_after (date_of (event_timestamp s)) series = Some (snd (series ! i))"
      by (intro first_on_or_after_hit) auto
    with r show "ar s' = Some (snd (series ! i))" by simp
  next
    assume "\<forall>row\<in>set series. fst row < date_of (event_timestamp s)"
    then have "first_on_or_after (date_of (event_timestamp s)) series = None"
      by (rule first_on_or_after_none)
    with r show "ar s' = Some (sum_list (map snd series) / real (length series))"
      by (simp add: series_mean_def series_sum_def)
  qed
qed

lemma gap_study_ar:
  "calculate_ar L gap_study
     = Inr (gap_study\<lparr> ar_series := Some gap_series, ar := Some (1 / 50) \<rparr>, gap_series)"
  by (simp add: calculate_ar_def gap_study_def gap_series_def init_def date_of_def
      index_intersection_def loc_def Let_def)

lemma late_study_ar:
  "calculate_ar L late_study
     = Inr (late_study\<lparr> ar_series := Some late_series, ar := Some (1 / 50) \<rparr>, late_series)"
  by (simp add: calculate_ar_def late_study_def late_series_def init_def date_of_def
      index_intersection_def loc_def Let_def series_mean_def series_sum_def)

theorem calculate_ar_event_day_witness:
  "calculate_ar demo_libs gap_study
     = Inr (gap_study\<lparr> ar_series := Some gap_series, ar := Some (1 / 50) \<rparr>, gap_series)
   \<and> gap_series \<noteq> []
   \<and> ar (gap_study\<lparr> ar_series := Some gap_series, ar := Some (1 / 50) \<rparr>)
       = Some (snd (gap_series ! 2))
   \<and> fst (gap_series ! 2) = 101
   \<and> calculate_ar demo_libs late_study
     = Inr (late_study\<lparr> ar_series := Some late_series, ar := Some (1 / 50) \<rparr>, late_series)
   \<and> late_series \<noteq> []
   \<and> ar (late_study\<lparr> ar_series := Some late_series, ar := Some (1 / 50) \<rparr>)
       = Some (sum_list (map snd late_series) / real (length late_series))"
proof -
  have g: "gap_series \<noteq> []" and l: "late_series \<noteq> []"
    by (simp_all add: gap_series_def late_series_def)
  have gd: "date_of (event_timestamp gap_study) = 100"
    and ld: "date_of (event_timestamp late_study) = 100"
    by (simp_all add: gap_study_def late_study_def init_def date_of_def)
  have "2 < length gap_series \<and> fst (gap_series ! 2) \<ge> 100
      \<and> (\<forall>j<2. fst (gap_series ! j) < 100)"
    by (simp add: gap_series_def less_Suc_eq numeral_2_eq_2)
  with calculate_ar_event_day[OF gap_study_ar[of demo_libs] g] gd
  have a: "ar (gap_study\<lparr> ar_series := Some gap_series, ar := Some (1 / 50) \<rparr>)
       = Some (snd (gap_series ! 2))"
    by simp
  have "\<forall>row\<in>set late_series. fst row < 100" by (simp add: late_series_def)
  with calculate_ar_event_day[OF late_study_ar[of demo_libs] l] ld
  have b: "ar (late_study\<lparr> ar_series := Some late_series, ar := Some (1 / 50) \<rparr>)
       = Some (sum_list (map snd late_series) / real (length late_series))"
    by (simp add: late_series_def)
  have c: "fst (gap_series ! 2) = 101" by (simp add: gap_series_def)
  from a b c g l gap_study_ar[of demo_libs] late_study_ar[of demo_libs] show ?thesis
    by blast
qed

text \<open>
  Claim C6. With a series in place, \<^verbatim>\<open>calculate_car\<close> without a sub-window returns the
  sum of all its values; with a sub-window \<open>(days_before, days_after)\<close> it returns the
  sum of the values dated in \<open>[event_date - days_before, event_date + days_after]\<close>.
  The value is also stored in the object. When no series is in place yet, the series
  computed by \<^verbatim>\<open>calculate_ar\<close> is the one summed.
\<close>

theorem calculate_car_sum:
  "(ar_series s = Some series \<longrightarrow>
      calculate_car L None s
        = Inr (s\<lparr> car := Some (sum_list (map snd series)) \<rparr>, sum_list (map snd series))
    \<and> calculate_car L (Some (days_before, days_after)) s
        = Inr (s\<lparr> car := Some (\<Sum>row\<leftarrow>series.
                         if date_of (event_timestamp s) - days_before \<le> fst row
                            \<and> fst row \<le> date_of (event_timestamp s) + days_after
                         then snd row else 0) \<rparr>,
               \<Sum>row\<leftarrow>series.
                  if date_of (event_timestamp s) - days_before \<le> fst row
                     \<and> fst row \<le> date_of (event_timestamp s) + days_after
                  then snd row else 0))
   \<and> (ar_series s = None \<and> calculate_ar L s = Inr (s1, series) \<and> series \<noteq> [] \<longrightarrow>
        calculate_car L None s
          = Inr (s1\<lparr> car := Some (sum_list (map snd series)) \<rparr>, sum_list (map snd series)))"
proof (intro conjI impI)
  assume a: "ar_series s = Some series"
  show "calculate_car L None s
        = Inr (s\<lparr> car := Some (sum_list (map snd series)) \<rparr>, sum_list (map snd series))"
    using a by (simp add: calculate_car_def series_sum_def Let_def)
  have f: "sum_list (map snd (filter P series)) = (\<Sum>row\<leftarrow>series. if P row then snd row else 0)"
    for P :: "int \<times> real \<Rightarrow> bool"
    by (induction series) simp_all
  show "calculate_car L (Some (days_before, days_after)) s
        = Inr (s\<lparr> car := Some (\<Sum>row\<leftarrow>series.
                         if date_of (event_timestamp s) - days_before \<le> fst row
                            \<and> fst row \<le> date_of (event_timestamp s) + days_after
                         then snd row else 0) \<rparr>,
               \<Sum>row\<leftarrow>series.
                  if date_of (event_timestamp s) - days_before \<le> fst row
                     \<and> fst row \<le> date_of (event_timestamp s) + days_after
                  then snd row else 0)"
    using a by (simp add: calculate_car_def series_sum_def Let_def f)
next
  assume b: "ar_series s = None \<and> calculate_ar L s = Inr (s1, series) \<and> series \<noteq> []"
  then have "ar_series s1 = Some series"
    using calculate_ar_result[of L s s1 series] by simp
  with b show "calculate_car L None s
          = Inr (s1\<lparr> car := Some (sum_list (map snd series)) \<rparr>, sum_list (map snd series))"
    by (simp add: calculate_car_def series_sum_def Let_def)
qed

theorem calculate_car_sum_witness:
  "ar_series three_days = Some demo_series
   \<and> calculate_car demo_libs None three_days = Inr (three_days\<lparr> car := Some (1 / 20) \<rparr>, 1 / 20)
   \<and> calculate_car demo_libs (Some (0, 1)) three_days
       = Inr (three_days\<lparr> car := Some (1 / 25) \<rparr>, 1 / 25)
   \<and> ar_series gap_study = None \<and> gap_series \<noteq> []
   \<and> calculate_car demo_libs None gap_study
       = Inr (gap_study\<lparr> ar_series := Some gap_series, ar := Some (1 / 50), car := Some (1 / 20) \<rparr>,
              1 / 20)"
proof -
  have h: "ar_series three_days = Some demo_series"
    by (simp add: three_days_def init_def)
  have d: "date_of (event_timestamp three_days) = 100"
    by (simp add: three_days_def init_def date_of_def)
  have n: "ar_series gap_study = None" by (simp add: gap_study_def init_def)
  have g: "gap_series \<noteq> []" by (simp add: gap_series_def)
  note t = calculate_car_sum[of three_days demo_series demo_libs 0 1]
  note u = calculate_car_sum[of gap_study gap_series demo_libs 0 0
      "gap_study\<lparr> ar_series := Some gap_series, ar := Some (1 / 50) \<rparr>"]
  have a: "calculate_car demo_libs None three_days
             = Inr (three_days\<lparr> car := Some (1 / 20) \<rparr>, 1 / 20)"
    using t h by (simp add: demo_series_def)
  have b: "calculate_car demo_libs (Some (0, 1)) three_days
             = Inr (three_days\<lparr> car := Some (1 / 25) \<rparr>, 1 / 25)"
    using t h d by (simp add: demo_series_def)
  have c: "calculate_car demo_libs None gap_study
       = Inr (gap_study\<lparr> ar_series := Some gap_series, ar := Some (1 / 50), car := Some (1 / 20) \<rparr>,
              1 / 20)"
    using u n g gap_study_ar[of demo_libs] by (simp add: gap_series_def)
  from h a b c n g show ?thesis by blast
qed

section \<open>Properties of the market-model estimator\<close>






lemma iloc_from_neg_pos:
  "1 \<le> n \<Longrightarrow> (if int (length rows) > n then iloc_from_neg n rows else rows)
     = drop (length rows - nat n) rows"
  by (auto simp: iloc_from_neg_def)














text \<open>
  The bound needs a window of at least one day. With \<^verbatim>\<open>estimation_window_days = 0\<close>
  and frames set by hand, the slice \<^verbatim>\<open>iloc[-0:]\<close> keeps every row: all five eligible
  days of the sample frames are used.
\<close>

theorem estimate_expected_return_zero_window:
  "estimation_window_days zero_window = 0
   \<and> length (fst (estimation_sample zero_window est_stock est_market)) = 5
   \<and> \<not> length (fst (estimation_sample zero_window est_stock est_market))
         \<le> nat (estimation_window_days zero_window)"
  by (simp add: estimation_sample_def estimation_rows_def zero_window_def init_def
      date_of_def est_stock_def est_market_def iloc_from_neg_def index_intersection_def
      loc_def Let_def)

section \<open>Frames with a common index\<close>

text \<open>
  When the two frames carry the same dates, without repetition, aligning them on the
  common dates changes nothing. The sample runs below are evaluated through these
  facts.
\<close>

lemma filter_key_single:
  "distinct (map fst rows) \<Longrightarrow> x \<in> set rows \<Longrightarrow> filter (\<lambda>row. fst row = fst x) rows = [x]"
proof (induction rows)
  case Nil
  then show ?case by simp
next
  case (Cons r rows)
  show ?case
  proof (cases "x = r")
    case True
    define k where "k = fst r"
    from Cons.prems(1) have "k \<notin> fst ` set rows" by (simp add: k_def)
    then have "filter (\<lambda>row. fst row = k) rows = []"
      by (auto simp: filter_empty_conv)
    with True show ?thesis by (simp add: k_def)
  next
    case False
    with Cons.prems have x: "x \<in> set rows" by simp
    with Cons.prems(1) have "fst r \<noteq> fst x" by force
    with Cons.IH[OF _ x] Cons.prems(1) show ?thesis by simp
  qed
qed

lemma loc_rows_of:
  "distinct (map fst rows) \<Longrightarrow> set xs \<subseteq> set rows \<Longrightarrow> loc rows (map fst xs) = xs"
proof (induction xs)
  case Nil
  then show ?case by (simp add: loc_def)
next
  case (Cons x xs)
  have "loc rows (map fst (x # xs)) = filter (\<lambda>row. fst row = fst x) rows @ loc rows (map fst xs)"
    by (simp add: loc_def)
  with Cons filter_key_single[of rows x] show ?case by simp
qed

lemma loc_same_index:
  assumes "distinct (map fst rows)" and "set (map fst rows) \<subseteq> set other"
  shows "loc rows (index_intersection (map fst rows) other) = rows"
proof -
  have "index_intersection (map fst rows) other = map fst rows"
    using assms(2) by (auto simp: index_intersection_def filter_id_conv)
  with loc_rows_of[OF assms(1), of rows] show ?thesis by simp
qed

lemma length_pct_change: "length (pct_change cs) = length cs"
  by (cases cs) simp_all

lemma with_return_index: "map fst (with_return rows) = map fst rows"
  by (simp add: with_return_def length_pct_change)

lemma fetch_data_aligned:
  assumes "history L (ticker s) (date_of (event_timestamp s) - (estimation_window_days s + 20))
             (date_of (event_timestamp s) + (event_window_days s + 5)) = Inr sr"
    and "history L (market_ticker s) (date_of (event_timestamp s) - (estimation_window_days s + 20))
             (date_of (event_timestamp s) + (event_window_days s + 5)) = Inr mr"
    and "sr \<noteq> []" and "mr \<noteq> []"
    and "map fst sr = map fst mr" and "distinct (map fst sr)"
  shows "fetch_data L s
     = (s\<lparr> stock_data := Some (dropna (with_return sr)),
            market_data := Some (dropna (with_return mr)) \<rparr>,
        length (dropna (with_return sr)) \<ge> 50)"
proof -
  have i: "map fst (with_return mr) = map fst (with_return sr)"
    by (simp only: with_return_index assms(5))
  have d: "distinct (map fst (with_return sr))"
    by (simp only: with_return_index assms(6))
  have st: "loc (with_return sr)
       (index_intersection (map fst (with_return sr)) (map fst (with_return mr))) = with_return sr"
    using d by (rule loc_same_index) (simp only: i subset_refl)
  have mk: "loc (with_return mr)
       (index_intersection (map fst (with_return sr)) (map fst (with_return mr))) = with_return mr"
    unfolding i[symmetric] using d[folded i] by (rule loc_same_index) (rule subset_refl)
  show ?thesis
    by (simp add: fetch_data_def Let_def assms(1-4) st mk)
qed

lemma estimation_sample_aligned:
  assumes "estimation_rows s sd md = (st, mk)"
    and "map fst st = map fst mk" and "distinct (map fst st)"
  shows "estimation_sample s sd md = (st, mk)"
proof -
  have a: "loc st (index_intersection (map fst st) (map fst mk)) = st"
    using assms(3) by (rule loc_same_index) (simp only: assms(2) subset_refl)
  have b: "loc mk (index_intersection (map fst st) (map fst mk)) = mk"
    unfolding assms(2) using assms(3)[unfolded assms(2)] by (rule loc_same_index) (rule subset_refl)
  show ?thesis by (simp add: estimation_sample_def assms(1) a b)
qed

lemma calculate_ar_aligned:
  assumes "alpha s = Some a" and "beta s = Some b"
    and "stock_data s = Some sd" and "market_data s = Some md"
    and "filter (\<lambda>row. fst row \<ge> date_of (event_timestamp s) - event_window_days s
                     \<and> fst row \<le> date_of (event_timestamp s) + event_window_days s) sd = es"
    and "filter (\<lambda>row. fst row \<ge> date_of (event_timestamp s) - event_window_days s
                     \<and> fst row \<le> date_of (event_timestamp s) + event_window_days s) md = em"
    and "map fst es = map fst em" and "distinct (map fst es)" and "es \<noteq> []"
  shows "calculate_ar L s
     = Inr (s\<lparr> ar_series := Some (map2 (\<lambda>actual expected. (fst actual, snd actual - snd expected))
                                    es (map (\<lambda>row. (fst row, a + b * snd row)) em)),
               ar := Some (case first_on_or_after (date_of (event_timestamp s))
                                  (map2 (\<lambda>actual expected. (fst actual, snd actual - snd expected))
                                    es (map (\<lambda>row. (fst row, a + b * snd row)) em)) of
                             Some v \<Rightarrow> v
                           | None \<Rightarrow> series_mean
                                  (map2 (\<lambda>actual expected. (fst actual, snd actual - snd expected))
                                    es (map (\<lambda>row. (fst row, a + b * snd row)) em))) \<rparr>,
            map2 (\<lambda>actual expected. (fst actual, snd actual - snd expected))
              es (map (\<lambda>row. (fst row, a + b * snd row)) em))"
proof -
  have x: "loc es (index_intersection (map fst es) (map fst em)) = es"
    using assms(8) by (rule loc_same_index) (simp only: assms(7) subset_refl)
  have y: "loc em (index_intersection (map fst es) (map fst em)) = em"
    unfolding assms(7) using assms(8)[unfolded assms(7)] by (rule loc_same_index) (rule subset_refl)
  have z: "index_intersection (map fst es) (map fst em) \<noteq> []"
    using assms(9) by (auto simp: index_intersection_def assms(7)[symmetric] filter_empty_conv)
  show ?thesis
    unfolding calculate_ar_def
    by (simp add: assms(1-6) x y z Let_def)
qed

section \<open>The sample run\<close>

text \<open>
  The study \<open>demo_study\<close> (event on day 100, one-day event window, 30-day estimation
  window) on \<open>demo_libs\<close>, stage by stage: 56 aligned returns are fetched, the fit on
  days 69 to 98 gives intercept 0 and slope 1, and the abnormal returns of days 99 to
  101 are 0.01, 0 and 0.04.
\<close>

lemma demo_history: "history demo_libs = demo_history"
  by (simp add: demo_libs_def)

lemma demo_ols: "ols_fit demo_libs = ols_textbook"
  by (simp add: demo_libs_def)

lemma keys_of_map: "map fst (map (\<lambda>d. (d, f d)) ds) = ds"
  by (induction ds) simp_all

lemma demo_stock_returns:
  "dropna (with_return (map (\<lambda>d. (d, stock_close d)) [50..106])) = demo_stock_frame"
  by (simp add: with_return_def demo_stock_frame_def stock_close_def market_close_def)

lemma demo_market_returns:
  "dropna (with_return (map (\<lambda>d. (d, market_close d)) [50..106])) = demo_market_frame"
  by (simp add: with_return_def demo_market_frame_def market_close_def)

lemma demo_fetch: "fetch_data demo_libs demo_study = (demo_fetched, True)"
proof -
  have a: "date_of (event_timestamp demo_study) - (estimation_window_days demo_study + 20) = 50"
    "date_of (event_timestamp demo_study) + (event_window_days demo_study + 5) = 106"
    "ticker demo_study = ''TEST''" "market_ticker demo_study = ''SPY''"
    by (simp_all add: demo_study_def init_def date_of_def)
  have h1: "history demo_libs (ticker demo_study)
             (date_of (event_timestamp demo_study) - (estimation_window_days demo_study + 20))
             (date_of (event_timestamp demo_study) + (event_window_days demo_study + 5))
          = Inr (map (\<lambda>d. (d, stock_close d)) [50..106])"
    unfolding a demo_history by (simp add: demo_history_def del: upto_rec_numeral)
  have h2: "history demo_libs (market_ticker demo_study)
             (date_of (event_timestamp demo_study) - (estimation_window_days demo_study + 20))
             (date_of (event_timestamp demo_study) + (event_window_days demo_study + 5))
          = Inr (map (\<lambda>d. (d, market_close d)) [50..106])"
    unfolding a demo_history by (simp add: demo_history_def del: upto_rec_numeral)
  have n: "map (\<lambda>d. (d, stock_close d)) [50..106] \<noteq> []"
    "map (\<lambda>d. (d, market_close d)) [50..106] \<noteq> []"
    by simp_all
  have k: "map fst (map (\<lambda>d. (d, stock_close d)) [50..106])
         = map fst (map (\<lambda>d. (d, market_close d)) [50..106])"
    by (simp only: keys_of_map)
  have d: "distinct (map fst (map (\<lambda>d. (d, stock_close d)) [50..106]))"
    by (simp only: keys_of_map distinct_upto)
  have l: "length demo_stock_frame \<ge> 50" by (simp add: demo_stock_frame_def)
  show ?thesis
    unfolding fetch_data_aligned[OF h1 h2 n k d] demo_stock_returns demo_market_returns
    using l by (simp add: demo_fetched_def)
qed
lemma demo_rows:
  "estimation_rows demo_fetched demo_stock_frame demo_market_frame
     = (demo_estimation, demo_estimation)"
  by (simp add: estimation_rows_def demo_fetched_def demo_study_def init_def date_of_def
      demo_stock_frame_def demo_market_frame_def demo_estimation_def iloc_from_neg_def Let_def)

lemma demo_fit: "ols_textbook (map snd demo_estimation) (map snd demo_estimation) = Inr (0, 1)"
  by (simp add: ols_textbook_def demo_estimation_def Let_def)

lemma demo_estimate:
  "estimate_expected_return demo_libs demo_fetched = Inr (demo_estimated, 0, 1)"
proof -
  have d: "distinct (map fst demo_estimation)"
    unfolding demo_estimation_def by (simp only: keys_of_map distinct_upto)
  have "estimation_sample demo_fetched demo_stock_frame demo_market_frame
     = (demo_estimation, demo_estimation)"
    using demo_rows refl d by (rule estimation_sample_aligned)
  then show ?thesis
    by (simp add: estimate_expected_return_def demo_ols demo_fit demo_fetched_def
        demo_estimated_def)
qed

lemma demo_event_stock:
  "filter (\<lambda>row. fst row \<ge> 99 \<and> fst row \<le> 101) demo_stock_frame
     = [(99, 1 / 100), (100, 0), (101, 1 / 25)]"
  by (simp add: demo_stock_frame_def)

lemma demo_event_market:
  "filter (\<lambda>row. fst row \<ge> 99 \<and> fst row \<le> 101) demo_market_frame
     = [(99, 0), (100, 0), (101, 0)]"
  by (simp add: demo_market_frame_def)

lemma demo_ar: "calculate_ar L demo_estimated = Inr (demo_abnormal, demo_series)"
proof -
  have f: "alpha demo_estimated = Some 0" "beta demo_estimated = Some 1"
    "stock_data demo_estimated = Some demo_stock_frame"
    "market_data demo_estimated = Some demo_market_frame"
    "date_of (event_timestamp demo_estimated) = 100" "event_window_days demo_estimated = 1"
    by (simp_all add: demo_estimated_def demo_fetched_def demo_study_def init_def date_of_def)
  have es: "filter (\<lambda>row. fst row \<ge> date_of (event_timestamp demo_estimated) - event_window_days demo_estimated
                     \<and> fst row \<le> date_of (event_timestamp demo_estimated) + event_window_days demo_estimated)
               demo_stock_frame = [(99, 1 / 100), (100, 0), (101, 1 / 25)]"
    unfolding f using demo_event_stock by simp
  have em: "filter (\<lambda>row. fst row \<ge> date_of (event_timestamp demo_estimated) - event_window_days demo_estimated
                     \<and> fst row \<le> date_of (event_timestamp demo_estimated) + event_window_days demo_estimated)
               demo_market_frame = [(99, 0), (100, 0), (101, 0)]"
    unfolding f using demo_event_market by simp
  show ?thesis
    unfolding calculate_ar_aligned[OF f(1-4) es em, of L, simplified]
    by (simp add: f(5) demo_abnormal_def demo_series_def)
qed


section \<open>Properties of the result assembler\<close>

text \<open>
  The state and the dictionary that \<^verbatim>\<open>run_full_analysis\<close> builds when every stage
  returns and the event window is not empty, and the stages behind each result.
\<close>

lemma calculate_ar_keeps_model:
  assumes "calculate_ar L s = Inr (s', series)" and "alpha s = Some a" and "beta s = Some b"
  shows "alpha s' = Some a \<and> beta s' = Some b"
  using assms
  by (auto simp: calculate_ar_def Let_def split: option.splits if_splits)

lemma calculate_ar_keeps_params:
  assumes "calculate_ar L s = Inr (s', series)" and "alpha s = Some a" and "beta s = Some b"
  shows "ticker s' = ticker s \<and> event_timestamp s' = event_timestamp s
       \<and> estimation_window_days s' = estimation_window_days s"
  using assms
  by (auto simp: calculate_ar_def Let_def split: option.splits if_splits)

lemma calculate_car_full:
  assumes "ar_series s = Some series"
  shows "calculate_car L None s = Inr (s\<lparr> car := Some (series_sum series) \<rparr>, series_sum series)"
  using assms by (simp add: calculate_car_def Let_def)

lemma statistical_test_state:
  assumes "ar_series s = Some series" and "series \<noteq> []"
  shows "fst (statistical_test L True s)
     = s\<lparr> t_statistic := Some (r_t_statistic (snd (statistical_test L True s))),
           p_value := Some (r_p_value (snd (statistical_test L True s))) \<rparr>"
  using assms by (simp add: statistical_test_def Let_def)

lemma analysis_body_stages:
  assumes "estimate_expected_return L s0 = Inr (s1, a, b)"
    and "calculate_ar L s1 = Inr (s2, series)" and "series \<noteq> []"
  shows "\<exists>x. ar s2 = Some x
     \<and> analysis_body L s0 =
        Inr (s2\<lparr> car := Some (series_sum series),
                 t_statistic := Some (r_t_statistic (snd (statistical_test L True
                     (s2\<lparr> car := Some (series_sum series) \<rparr>)))),
                 p_value := Some (r_p_value (snd (statistical_test L True
                     (s2\<lparr> car := Some (series_sum series) \<rparr>)))) \<rparr>,
             Completed
               \<lparr> res_ticker = ticker s0,
                 res_event_timestamp = event_timestamp s0,
                 res_event_date = date_of (event_timestamp s0),
                 res_alpha = py_round a 6,
                 res_beta = py_round b 4,
                 res_ar = py_round x 6,
                 res_ar_percentage = py_round (x * 100) 4,
                 res_car = py_round (series_sum series) 6,
                 res_car_percentage = py_round (series_sum series * 100) 4,
                 res_t_statistic = r_t_statistic (snd (statistical_test L True
                     (s2\<lparr> car := Some (series_sum series) \<rparr>))),
                 res_p_value = r_p_value (snd (statistical_test L True
                     (s2\<lparr> car := Some (series_sum series) \<rparr>))),
                 res_is_significant = r_is_significant (snd (statistical_test L True
                     (s2\<lparr> car := Some (series_sum series) \<rparr>))),
                 res_confidence = py_round_f (r_confidence (snd (statistical_test L True
                     (s2\<lparr> car := Some (series_sum series) \<rparr>)))) 3,
                 res_is_outlier = filter_outliers 3
                   (s2\<lparr> car := Some (series_sum series),
                        t_statistic := Some (r_t_statistic (snd (statistical_test L True
                          (s2\<lparr> car := Some (series_sum series) \<rparr>)))),
                        p_value := Some (r_p_value (snd (statistical_test L True
                          (s2\<lparr> car := Some (series_sum series) \<rparr>)))) \<rparr>),
                 res_num_observations = length series,
                 res_estimation_window_days = estimation_window_days s0,
                 res_direction = (if x > 0 then ''positive''
                                  else if x < 0 then ''negative'' else ''neutral''),
                 res_summary = generate_summary
                   (s2\<lparr> car := Some (series_sum series),
                        t_statistic := Some (r_t_statistic (snd (statistical_test L True
                          (s2\<lparr> car := Some (series_sum series) \<rparr>)))),
                        p_value := Some (r_p_value (snd (statistical_test L True
                          (s2\<lparr> car := Some (series_sum series) \<rparr>)))) \<rparr>) \<rparr>)"
proof -
  have s1: "s1 = s0\<lparr> alpha := Some a, beta := Some b \<rparr>"
    using assms(1) by (rule estimate_keeps_fields)
  note r = calculate_ar_result[OF assms(2,3)]
  have k: "ticker s2 = ticker s0" "event_timestamp s2 = event_timestamp s0"
    "estimation_window_days s2 = estimation_window_days s0"
    using calculate_ar_keeps_params[OF assms(2), of a b] by (simp_all add: s1)
  let ?s3 = "s2\<lparr> car := Some (series_sum series) \<rparr>"
  have c: "calculate_car L None s2 = Inr (?s3, series_sum series)"
    using r by (intro calculate_car_full) simp
  have a3: "ar_series ?s3 = Some series" using r by simp
  obtain s4 tr where st: "statistical_test L True ?s3 = (s4, tr)"
    by (cases "statistical_test L True ?s3")
  have s4: "s4 = ?s3\<lparr> t_statistic := Some (r_t_statistic tr), p_value := Some (r_p_value tr) \<rparr>"
    using statistical_test_state[OF a3 assms(3), of L] st by simp
  obtain x where x: "ar s2 = Some x" using r by blast
  have ax: "ar s4 = Some x" by (simp add: s4 x)
  have "analysis_body L s0 = Inr (s4, Completed
               \<lparr> res_ticker = ticker s0,
                 res_event_timestamp = event_timestamp s0,
                 res_event_date = date_of (event_timestamp s0),
                 res_alpha = py_round a 6,
                 res_beta = py_round b 4,
                 res_ar = py_round x 6,
                 res_ar_percentage = py_round (x * 100) 4,
                 res_car = py_round (series_sum series) 6,
                 res_car_percentage = py_round (series_sum series * 100) 4,
                 res_t_statistic = r_t_statistic tr,
                 res_p_value = r_p_value tr,
                 res_is_significant = r_is_significant tr,
                 res_confidence = py_round_f (r_confidence tr) 3,
                 res_is_outlier = filter_outliers 3 s4,
                 res_num_observations = length series,
                 res_estimation_window_days = estimation_window_days s0,
                 res_direction = (if x > 0 then ''positive''
                                  else if x < 0 then ''negative'' else ''neutral''),
                 res_summary = generate_summary s4 \<rparr>)"
    unfolding analysis_body_def
    using assms(3) by (simp add: assms(1,2) c st ax) (simp add: s4 k)
  then show ?thesis using x st by (auto simp: s4)
qed

lemma error_dict_structured: "msg \<noteq> [] \<Longrightarrow> structured_error (error_dict s msg)"
  by (simp add: structured_error_def error_dict_def)

lemma analysis_body_raises:
  "estimate_expected_return L s0 = Inl e \<Longrightarrow> analysis_body L s0 = Inl e"
  "estimate_expected_return L s0 = Inr (s1, a, b) \<Longrightarrow> calculate_ar L s1 = Inl e
     \<Longrightarrow> analysis_body L s0 = Inl e"
  "estimate_expected_return L s0 = Inr (s1, a, b) \<Longrightarrow> calculate_ar L s1 = Inr (s2, [])
     \<Longrightarrow> analysis_body L s0 = Inr (s2, error_dict s2 ''No data in event window'')"
  by (simp_all add: analysis_body_def)

lemma analysis_body_completed:
  assumes "analysis_body L s0 = Inr (s', Completed r)"
  shows "\<exists>s1 a b s2 series. estimate_expected_return L s0 = Inr (s1, a, b)
           \<and> calculate_ar L s1 = Inr (s2, series) \<and> series \<noteq> []"
proof (cases "estimate_expected_return L s0")
  case (Inl e)
  with assms show ?thesis by (simp add: analysis_body_raises)
next
  case (Inr t)
  obtain s1 a b where t: "t = (s1, a, b)" by (cases t)
  show ?thesis
  proof (cases "calculate_ar L s1")
    case (Inl e)
    with assms Inr t show ?thesis by (simp add: analysis_body_raises)
  next
    case inr: (Inr u)
    obtain s2 series where u: "u = (s2, series)" by (cases u)
    show ?thesis
    proof (cases "series = []")
      case True
      with assms Inr t inr u show ?thesis
        by (simp add: analysis_body_raises error_dict_def)
    next
      case False
      with Inr t inr u show ?thesis by blast
    qed
  qed
qed

lemma analysis_body_failed:
  assumes "analysis_body L s0 = Inr (s', Failed x)"
  shows "structured_error (Failed x)"
proof (cases "estimate_expected_return L s0")
  case (Inl e)
  with assms show ?thesis by (simp add: analysis_body_raises)
next
  case (Inr t)
  obtain s1 a b where t: "t = (s1, a, b)" by (cases t)
  show ?thesis
  proof (cases "calculate_ar L s1")
    case (Inl e)
    with assms Inr t show ?thesis by (simp add: analysis_body_raises)
  next
    case inr: (Inr u)
    obtain s2 series where u: "u = (s2, series)" by (cases u)
    show ?thesis
    proof (cases "series = []")
      case True
      with assms Inr t inr u have "Failed x = error_dict s2 ''No data in event window''"
        by (auto simp: analysis_body_raises)
      then show ?thesis by (simp add: error_dict_structured)
    next
      case False
      from analysis_body_stages[OF Inr[unfolded t] inr[unfolded u] False] assms
      show ?thesis by auto
    qed
  qed
qed

lemma run_full_analysis_completed:
  assumes "run_full_analysis L s = Completed r"
  shows "\<exists>s0 s'. fetch_data L s = (s0, True) \<and> analysis_body L s0 = Inr (s', Completed r)"
  using assms
  by (auto simp: run_full_analysis_def error_dict_def split: prod.splits bool.splits sum.splits)

lemma summary_negative:
  assumes "ar s = Some 0"
  shows "take 8 (generate_summary s) = ''Negative''"
  using assms
  by (simp add: generate_summary_def Let_def upper_char_def lower_char_def split: option.splits)

text \<open>
  \<^verbatim>\<open>round(x, k)\<close> as modelled gives a multiple of \<open>10\<^sup>-\<^sup>k\<close> within half a unit of
  the last place.
\<close>

lemma round_half_even_close: "\<bar>of_int (round_half_even y) - y\<bar> \<le> 1 / 2"
proof -
  have "of_int \<lfloor>y\<rfloor> \<le> y" "y < of_int \<lfloor>y\<rfloor> + 1" by linarith+
  then show ?thesis
    by (auto simp: round_half_even_def Let_def)
qed

lemma py_round_decimal: "\<exists>n::int. py_round x k = of_int n / 10 ^ k"
  by (auto simp: py_round_def)

lemma py_round_close: "\<bar>py_round x k - x\<bar> \<le> 1 / (2 * 10 ^ k)"
proof -
  have p: "(0::real) < 10 ^ k" by simp
  have "py_round x k - x = (of_int (round_half_even (x * 10 ^ k)) - x * 10 ^ k) / 10 ^ k"
    by (simp add: py_round_def field_simps)
  then have "\<bar>py_round x k - x\<bar> = \<bar>of_int (round_half_even (x * 10 ^ k)) - x * 10 ^ k\<bar> / 10 ^ k"
    by (simp add: abs_divide)
  also have "\<dots> \<le> (1 / 2) / 10 ^ k"
    by (rule divide_right_mono[OF round_half_even_close]) simp
  finally show ?thesis by simp
qed

section \<open>The sample run: test, rounding and summary\<close>

text \<open>
  The statistic of the sample run is \<open>sqrt 3 / 1.4826\<close>; its p-value under two degrees
  of freedom lies between 0.363 and 0.3635, so the confidence 0.6368... is rounded
  to 0.637.
\<close>

lemma demo_t_value: "demo_t = sqrt 3 * (10000 / 14826)"
  by (simp add: demo_t_def)

lemma demo_t_pos: "0 < demo_t"
  by (simp add: demo_t_value)

lemma demo_t_square: "demo_t * demo_t = 3 * (10000 / 14826) * (10000 / 14826)"
  by (simp add: demo_t_value)

lemma demo_p_value: "demo_p = 1 - demo_t / sqrt (2 + demo_t * demo_t)"
  using demo_t_pos by (simp add: demo_p_def student_t_two_def algebra_simps)

lemma demo_ratio_bounds:
  "6365 / 10000 < demo_t / sqrt (2 + demo_t * demo_t)
   \<and> demo_t / sqrt (2 + demo_t * demo_t) < 637 / 1000"
proof -
  let ?u = "sqrt (2 + demo_t * demo_t)"
  let ?r = "demo_t / ?u"
  have u: "0 < ?u" using demo_t_pos by (simp add: add_pos_nonneg)
  have r0: "0 \<le> ?r" using u demo_t_pos by simp
  have "?r * ?r = (demo_t * demo_t) / (?u * ?u)" by simp
  also have "?u * ?u = 2 + demo_t * demo_t"
  proof -
    have "0 \<le> 2 + demo_t * demo_t" by (simp add: add_nonneg_nonneg)
    then show ?thesis by simp
  qed
  finally have sq: "?r * ?r = (demo_t * demo_t) / (2 + demo_t * demo_t)" .
  have q: "(demo_t * demo_t) / (2 + demo_t * demo_t) = 300000000 / 739620552"
    unfolding demo_t_square by simp
  have "(6365 / 10000)\<^sup>2 < ?r * ?r" unfolding sq q by (simp add: power2_eq_square)
  then have lo: "(6365 / 10000)\<^sup>2 < ?r\<^sup>2" by (simp only: power2_eq_square)
  have "?r * ?r < (637 / 1000)\<^sup>2" unfolding sq q by (simp add: power2_eq_square)
  then have hi: "?r\<^sup>2 < (637 / 1000)\<^sup>2" by (simp only: power2_eq_square)
  from lo r0 have "6365 / 10000 < ?r" by (rule power2_less_imp_less)
  moreover from hi have "?r < 637 / 1000" by (rule power2_less_imp_less) simp
  ultimately show ?thesis by simp
qed

lemma demo_p_bounds: "363 / 1000 < demo_p \<and> demo_p < 3635 / 10000"
  using demo_ratio_bounds by (simp add: demo_p_value)

lemma demo_test:
  assumes "ar_series s = Some demo_series"
  shows "snd (statistical_test demo_libs True s)
     = \<lparr> r_t_statistic = Fin demo_t, r_p_value = Fin demo_p, r_is_significant = False,
         r_confidence = Fin (1 - demo_p), r_method = Some ''robust'' \<rparr>"
proof -
  have ne: "demo_series \<noteq> []" by (simp add: demo_series_def)
  have n: "length demo_series = 3" by (simp add: demo_series_def)
  have l: "t_cdf demo_libs = student_t_two" by (simp add: demo_libs_def)
  have t: "(1 / 100) / ((14826 / 10000 * (1 / 100)) / sqrt 3) = demo_t"
    by (simp only: demo_t_def)
  have p: "2 * (1 - student_t_two 2 \<bar>demo_t\<bar>) = demo_p" by (simp only: demo_p_def)
  have sig: "\<not> demo_p < 5 / 100" and one: "demo_p < 1" and cap: "\<not> 99 / 100 < 1 - demo_p"
    using demo_p_bounds by simp_all
  have "snd (statistical_test demo_libs True s)
     = \<lparr> r_t_statistic = Fin demo_t, r_p_value = Fin demo_p,
         r_is_significant = f_lt (Fin demo_p) SIGNIFICANCE_LEVEL,
         r_confidence = confidence_of (Fin demo_p), r_method = Some ''robust'' \<rparr>"
    unfolding test_result_robust[OF assms ne] Let_def
    by (simp only: demo_series_median demo_series_mad length_map n scipy_t_cdf_def l)
       (simp add: demo_t_def demo_p_def)
  then show ?thesis
    using sig one cap by (simp add: SIGNIFICANCE_LEVEL_def confidence_of_def)
qed

lemma demo_confidence_rounded: "py_round (1 - demo_p) 3 = 637 / 1000"
proof -
  have b: "636 + 1 / 2 < (1 - demo_p) * 1000" "(1 - demo_p) * 1000 < 637"
    using demo_p_bounds by simp_all
  have f: "\<lfloor>(1 - demo_p) * 1000\<rfloor> = 636"
    by (rule floor_unique) (use b in simp_all)
  have "round_half_even ((1 - demo_p) * 1000) = 637"
    unfolding round_half_even_def Let_def f using b by simp
  then show ?thesis by (simp add: py_round_def)
qed

lemma py_round_integer: "py_round (of_int n) k = of_int n"
proof -
  have e: "(of_int n :: real) * 10 ^ k = of_int (n * 10 ^ k)" by simp
  have "round_half_even (of_int n * 10 ^ k) = n * 10 ^ k"
    unfolding e by (simp add: round_half_even_def del: of_int_mult of_int_power)
  then show ?thesis by (simp add: py_round_def)
qed

lemma demo_rounding:
  "py_round 0 k = 0" "py_round 1 k = 1" "py_round 5 k = 5" "py_round (1 / 20) 6 = 1 / 20"
  using py_round_integer[of 0 k] py_round_integer[of 1 k] py_round_integer[of 5 k]
  by (simp_all add: py_round_def round_half_even_def)

lemma demo_not_outlier:
  assumes "ar_series s = Some demo_series" and "ar s = Some 0"
  shows "\<not> filter_outliers 3 s"
  using assms demo_series_median demo_series_mad
  by (simp add: filter_outliers_def Let_def mad_of_def)

lemma demo_summary:
  assumes "ar_series s = Some demo_series" and "ar s = Some 0" and "p_value s = Some (Fin demo_p)"
  shows "generate_summary s
     = ''Negative abnormal return of 0.00%. Not statistically significant. ''"
proof -
  have sig: "\<not> demo_p < 5 / 100" using demo_p_bounds by simp
  have f: "format_fixed 2 0 = ''0.00''"
    by (simp add: format_fixed_def round_half_even_def digit_char_def)
  show ?thesis
    using demo_not_outlier[OF assms(1,2)] sig
    by (simp add: generate_summary_def assms(2,3) Let_def SIGNIFICANCE_LEVEL_def f
        upper_char_def lower_char_def)
qed

lemma demo_body: "analysis_body demo_libs demo_fetched = Inr (demo_final, Completed demo_result)"
proof -
  have ne: "demo_series \<noteq> []" by (simp add: demo_series_def)
  have sum: "series_sum demo_series = 1 / 20" by (simp add: series_sum_def demo_series_def)
  have a: "ar demo_abnormal = Some 0" "ar_series demo_abnormal = Some demo_series"
    by (simp_all add: demo_abnormal_def)
  let ?s3 = "demo_abnormal\<lparr> car := Some (1 / 20) \<rparr>"
  have t: "snd (statistical_test demo_libs True ?s3)
     = \<lparr> r_t_statistic = Fin demo_t, r_p_value = Fin demo_p, r_is_significant = False,
         r_confidence = Fin (1 - demo_p), r_method = Some ''robust'' \<rparr>"
    by (rule demo_test) (simp add: a)
  have fin: "demo_abnormal\<lparr> car := Some (1 / 20), t_statistic := Some (Fin demo_t),
                p_value := Some (Fin demo_p) \<rparr> = demo_final"
    by (simp add: demo_final_def)
  have o: "\<not> filter_outliers 3 demo_final"
    by (rule demo_not_outlier) (simp_all add: demo_final_def a)
  have s: "generate_summary demo_final
     = ''Negative abnormal return of 0.00%. Not statistically significant. ''"
    by (rule demo_summary) (simp_all add: demo_final_def a)
  have k: "ticker demo_fetched = ''TEST''" "event_timestamp demo_fetched = (100, 0)"
    "estimation_window_days demo_fetched = 30"
    by (simp_all add: demo_fetched_def demo_study_def init_def)
  from analysis_body_stages[OF demo_estimate demo_ar[of demo_libs] ne]
  show ?thesis
    unfolding sum t
    by (simp add: a fin o s k demo_rounding demo_confidence_rounded demo_result_def date_of_def
        demo_series_def)
qed

lemma demo_run: "run_full_analysis demo_libs demo_study = Completed demo_result"
  by (simp add: run_full_analysis_def demo_fetch demo_body)

section \<open>Claims on the result assembler\<close>

text \<open>
  Claim C3. Whenever a stage fails, \<^verbatim>\<open>run_full_analysis\<close> returns a structured error
  result (non-empty message, \<open>ar = 0\<close>, \<open>car = 0\<close>, \<open>confidence = 0\<close>, not significant):
  when the fetch fails, when estimating or computing abnormal returns raises, when the
  event window is empty, and when anything else in the body raises. No exception
  leaves the function: its result is a structured error or a completed result.
\<close>

theorem run_full_analysis_failure:
  "(\<not> snd (fetch_data L s) \<longrightarrow>
      run_full_analysis L s = error_dict s ''Failed to fetch data''
      \<and> structured_error (run_full_analysis L s))
   \<and> (fetch_data L s = (s0, True) \<and> estimate_expected_return L s0 = Inl e \<longrightarrow>
        structured_error (run_full_analysis L s))
   \<and> (fetch_data L s = (s0, True) \<and> estimate_expected_return L s0 = Inr (s1, a, b)
        \<and> calculate_ar L s1 = Inl e \<longrightarrow> structured_error (run_full_analysis L s))
   \<and> (fetch_data L s = (s0, True) \<and> estimate_expected_return L s0 = Inr (s1, a, b)
        \<and> calculate_ar L s1 = Inr (s2, []) \<longrightarrow>
        run_full_analysis L s = error_dict s2 ''No data in event window''
        \<and> structured_error (run_full_analysis L s))
   \<and> (fetch_data L s = (s0, True) \<and> analysis_body L s0 = Inl e \<longrightarrow>
        run_full_analysis L s = error_dict s0 (''Analysis failed: '' @ e)
        \<and> structured_error (run_full_analysis L s))
   \<and> (structured_error (run_full_analysis L s) \<or> (\<exists>r. run_full_analysis L s = Completed r))"
proof (intro conjI impI)
  assume "\<not> snd (fetch_data L s)"
  then show f: "run_full_analysis L s = error_dict s ''Failed to fetch data''"
    by (cases "fetch_data L s") (simp add: run_full_analysis_def)
  show "structured_error (run_full_analysis L s)"
    unfolding f by (rule error_dict_structured) simp
next
  assume "fetch_data L s = (s0, True) \<and> estimate_expected_return L s0 = Inl e"
  then show "structured_error (run_full_analysis L s)"
    by (simp add: run_full_analysis_def analysis_body_raises error_dict_structured)
next
  assume "fetch_data L s = (s0, True) \<and> estimate_expected_return L s0 = Inr (s1, a, b)
        \<and> calculate_ar L s1 = Inl e"
  then show "structured_error (run_full_analysis L s)"
    by (simp add: run_full_analysis_def analysis_body_raises(2)[of L s0 s1 a b e]
        error_dict_structured)
next
  assume h: "fetch_data L s = (s0, True) \<and> estimate_expected_return L s0 = Inr (s1, a, b)
        \<and> calculate_ar L s1 = Inr (s2, [])"
  then show g: "run_full_analysis L s = error_dict s2 ''No data in event window''"
    by (simp add: run_full_analysis_def analysis_body_raises(3)[of L s0 s1 a b s2])
  show "structured_error (run_full_analysis L s)"
    unfolding g by (rule error_dict_structured) simp
next
  assume "fetch_data L s = (s0, True) \<and> analysis_body L s0 = Inl e"
  then show g: "run_full_analysis L s = error_dict s0 (''Analysis failed: '' @ e)"
    by (simp add: run_full_analysis_def)
  show "structured_error (run_full_analysis L s)"
    unfolding g by (rule error_dict_structured) simp
next
  show "structured_error (run_full_analysis L s) \<or> (\<exists>r. run_full_analysis L s = Completed r)"
  proof (cases "run_full_analysis L s")
    case (Failed x)
    have "structured_error (run_full_analysis L s)"
    proof (cases "fetch_data L s")
      case (Pair s0 ok)
      show ?thesis
      proof (cases ok)
        case False
        with Pair show ?thesis
          by (simp add: run_full_analysis_def error_dict_structured)
      next
        case True
        show ?thesis
        proof (cases "analysis_body L s0")
          case (Inl e)
          with Pair True show ?thesis
            by (simp add: run_full_analysis_def error_dict_structured)
        next
          case (Inr u)
          obtain s' res where u: "u = (s', res)" by (cases u)
          with Pair True Inr have "run_full_analysis L s = res"
            by (simp add: run_full_analysis_def)
          with Failed Inr u analysis_body_failed[of L s0 s' x] show ?thesis by simp
        qed
      qed
    qed
    then show ?thesis by simp
  next
    case (Completed r)
    then show ?thesis by simp
  qed
qed

theorem run_full_analysis_failure_witness:
  "\<not> snd (fetch_data demo_libs unknown_study)
   \<and> structured_error (run_full_analysis demo_libs unknown_study)
   \<and> run_full_analysis demo_libs unknown_study
       = Failed \<lparr> err_ticker = ''INVALIDTICKER'', err_event_timestamp = (47482, 0),
                  err_error = ''Failed to fetch data'', err_ar = 0, err_car = 0,
                  err_confidence = 0, err_is_significant = False \<rparr>"
proof -
  have f: "\<not> snd (fetch_data demo_libs unknown_study)"
    by (simp add: fetch_data_def demo_history demo_history_def unknown_study_def init_def Let_def)
  have e: "error_dict unknown_study ''Failed to fetch data''
       = Failed \<lparr> err_ticker = ''INVALIDTICKER'', err_event_timestamp = (47482, 0),
                  err_error = ''Failed to fetch data'', err_ar = 0, err_car = 0,
                  err_confidence = 0, err_is_significant = False \<rparr>"
    by (simp add: error_dict_def unknown_study_def init_def)
  from run_full_analysis_failure[of demo_libs unknown_study] f
  have a: "run_full_analysis demo_libs unknown_study
       = error_dict unknown_study ''Failed to fetch data''"
    and b: "structured_error (run_full_analysis demo_libs unknown_study)"
    by blast+
  from f b a[unfolded e] show ?thesis by blast
qed

text \<open>
  Claim C8, as amended. In every completed result, \<open>alpha\<close>, \<open>ar\<close> and \<open>car\<close> are
  rounded to 6 decimal places, \<open>beta\<close>, \<open>ar_percentage\<close> and \<open>car_percentage\<close> to 4,
  and \<open>confidence\<close> to 3; \<open>p_value\<close> and \<open>t_statistic\<close> are the unrounded values of
  the significance test, as stored in the object.
\<close>

theorem run_full_analysis_rounding:
  assumes "run_full_analysis L s = Completed r"
  shows "\<exists>s0 s' a b x c p t.
           fetch_data L s = (s0, True) \<and> analysis_body L s0 = Inr (s', Completed r)
         \<and> alpha s' = Some a \<and> beta s' = Some b \<and> ar s' = Some x \<and> car s' = Some c
         \<and> p_value s' = Some p \<and> t_statistic s' = Some t
         \<and> res_alpha r = py_round a 6 \<and> res_beta r = py_round b 4
         \<and> res_ar r = py_round x 6 \<and> res_ar_percentage r = py_round (x * 100) 4
         \<and> res_car r = py_round c 6 \<and> res_car_percentage r = py_round (c * 100) 4
         \<and> res_confidence r = py_round_f (confidence_of p) 3
         \<and> res_p_value r = p \<and> res_t_statistic r = t"
proof -
  obtain s0 s' where f: "fetch_data L s = (s0, True)"
    and body: "analysis_body L s0 = Inr (s', Completed r)"
    using run_full_analysis_completed[OF assms] by blast
  obtain s1 a b s2 series where e: "estimate_expected_return L s0 = Inr (s1, a, b)"
    and c: "calculate_ar L s1 = Inr (s2, series)" and ne: "series \<noteq> []"
    using analysis_body_completed[OF body] by blast
  have s1: "s1 = s0\<lparr> alpha := Some a, beta := Some b \<rparr>"
    using e by (rule estimate_keeps_fields)
  have m: "alpha s2 = Some a" "beta s2 = Some b"
    using calculate_ar_keeps_model[OF c, of a b] by (simp_all add: s1)
  let ?s3 = "s2\<lparr> car := Some (series_sum series) \<rparr>"
  let ?tr = "snd (statistical_test L True ?s3)"
  have conf: "r_confidence ?tr = confidence_of (r_p_value ?tr)"
    by (rule test_result_confidence)
  obtain x where x: "ar s2 = Some x"
    and b': "analysis_body L s0 =
        Inr (s2\<lparr> car := Some (series_sum series),
                 t_statistic := Some (r_t_statistic ?tr),
                 p_value := Some (r_p_value ?tr) \<rparr>,
             Completed
               \<lparr> res_ticker = ticker s0,
                 res_event_timestamp = event_timestamp s0,
                 res_event_date = date_of (event_timestamp s0),
                 res_alpha = py_round a 6,
                 res_beta = py_round b 4,
                 res_ar = py_round x 6,
                 res_ar_percentage = py_round (x * 100) 4,
                 res_car = py_round (series_sum series) 6,
                 res_car_percentage = py_round (series_sum series * 100) 4,
                 res_t_statistic = r_t_statistic ?tr,
                 res_p_value = r_p_value ?tr,
                 res_is_significant = r_is_significant ?tr,
                 res_confidence = py_round_f (r_confidence ?tr) 3,
                 res_is_outlier = filter_outliers 3
                   (s2\<lparr> car := Some (series_sum series),
                        t_statistic := Some (r_t_statistic ?tr),
                        p_value := Some (r_p_value ?tr) \<rparr>),
                 res_num_observations = length series,
                 res_estimation_window_days = estimation_window_days s0,
                 res_direction = (if x > 0 then ''positive''
                                  else if x < 0 then ''negative'' else ''neutral''),
                 res_summary = generate_summary
                   (s2\<lparr> car := Some (series_sum series),
                        t_statistic := Some (r_t_statistic ?tr),
                        p_value := Some (r_p_value ?tr) \<rparr>) \<rparr>)"
    using analysis_body_stages[OF e c ne] by blast
  from body b' have s': "s' = s2\<lparr> car := Some (series_sum series),
                 t_statistic := Some (r_t_statistic ?tr),
                 p_value := Some (r_p_value ?tr) \<rparr>"
    and r: "res_alpha r = py_round a 6" "res_beta r = py_round b 4"
      "res_ar r = py_round x 6" "res_ar_percentage r = py_round (x * 100) 4"
      "res_car r = py_round (series_sum series) 6"
      "res_car_percentage r = py_round (series_sum series * 100) 4"
      "res_confidence r = py_round_f (r_confidence ?tr) 3"
      "res_p_value r = r_p_value ?tr" "res_t_statistic r = r_t_statistic ?tr"
    by auto
  have st: "alpha s' = Some a" "beta s' = Some b" "ar s' = Some x"
    "car s' = Some (series_sum series)"
    "p_value s' = Some (r_p_value ?tr)" "t_statistic s' = Some (r_t_statistic ?tr)"
    by (simp_all add: s' m x)
  from f body st r conf show ?thesis by (metis (no_types))
qed

theorem run_full_analysis_rounding_witness:
  "run_full_analysis demo_libs demo_study = Completed demo_result
   \<and> res_alpha demo_result = py_round 0 6 \<and> res_beta demo_result = py_round 1 4
   \<and> res_ar demo_result = py_round 0 6 \<and> res_ar_percentage demo_result = py_round (0 * 100) 4
   \<and> res_car demo_result = py_round (1 / 20) 6
   \<and> res_car_percentage demo_result = py_round (1 / 20 * 100) 4
   \<and> res_confidence demo_result = py_round_f (confidence_of (Fin demo_p)) 3
   \<and> res_p_value demo_result = Fin demo_p \<and> res_t_statistic demo_result = Fin demo_t"
proof -
  obtain s0 s' a b x c p t where h:
    "fetch_data demo_libs demo_study = (s0, True)"
    "analysis_body demo_libs s0 = Inr (s', Completed demo_result)"
    "alpha s' = Some a" "beta s' = Some b" "ar s' = Some x" "car s' = Some c"
    "p_value s' = Some p" "t_statistic s' = Some t"
    "res_alpha demo_result = py_round a 6" "res_beta demo_result = py_round b 4"
    "res_ar demo_result = py_round x 6" "res_ar_percentage demo_result = py_round (x * 100) 4"
    "res_car demo_result = py_round c 6" "res_car_percentage demo_result = py_round (c * 100) 4"
    "res_confidence demo_result = py_round_f (confidence_of p) 3"
    "res_p_value demo_result = p" "res_t_statistic demo_result = t"
    using run_full_analysis_rounding[OF demo_run] by blast
  from h(1) have s0: "s0 = demo_fetched" by (simp add: demo_fetch)
  from h(2) have s': "s' = demo_final" by (simp add: s0 demo_body)
  have v: "a = 0" "b = 1" "x = 0" "c = 1 / 20" "p = Fin demo_p" "t = Fin demo_t"
    using h(3-8)
    by (simp_all add: s' demo_final_def demo_abnormal_def demo_estimated_def)
  from h(9-17) demo_run show ?thesis unfolding v by blast
qed

text \<open>
  The sample run has a p-value strictly between 0.363 and 0.364; it is returned as
  computed, not rounded to three decimal places.
\<close>

theorem run_full_analysis_p_value_unrounded:
  "run_full_analysis demo_libs demo_study = Completed demo_result
   \<and> res_p_value demo_result = Fin demo_p
   \<and> 363 / 1000 < demo_p \<and> demo_p < 364 / 1000
   \<and> py_round_f (res_p_value demo_result) 3 \<noteq> res_p_value demo_result"
proof -
  have b: "363 / 1000 < demo_p" "demo_p < 364 / 1000" using demo_p_bounds by simp_all
  have "py_round demo_p 3 \<noteq> demo_p"
  proof
    assume e: "py_round demo_p 3 = demo_p"
    obtain n :: int where n: "py_round demo_p 3 = of_int n / 10 ^ 3"
      using py_round_decimal by blast
    from e n have "demo_p * 1000 = of_int n" by simp
    with b have "(363::real) < of_int n" "of_int n < (364::real)" by simp_all
    then have "363 < n" "n < 364" by linarith+
    then show False by simp
  qed
  then show ?thesis using b demo_run by (simp add: demo_result_def)
qed

text \<open>
  Claim C9. In a completed analysis whose event-day abnormal return is exactly 0, the
  direction is \<open>neutral\<close> while the summary starts with \<open>Negative\<close>: the summary calls
  every return that is not positive negative.
\<close>

theorem run_full_analysis_zero_ar:
  assumes "fetch_data L s = (s0, True)" and "analysis_body L s0 = Inr (s', Completed r)"
    and "ar s' = Some 0"
  shows "run_full_analysis L s = Completed r
       \<and> res_direction r = ''neutral''
       \<and> take 8 (res_summary r) = ''Negative''"
proof -
  obtain s1 a b s2 series where e: "estimate_expected_return L s0 = Inr (s1, a, b)"
    and c: "calculate_ar L s1 = Inr (s2, series)" and ne: "series \<noteq> []"
    using analysis_body_completed[OF assms(2)] by blast
  from analysis_body_stages[OF e c ne] assms(2,3)
  have "res_direction r = ''neutral''" and "res_summary r = generate_summary s'"
    by auto
  with summary_negative[OF assms(3)] assms(1,2) show ?thesis
    by (simp add: run_full_analysis_def)
qed

theorem run_full_analysis_zero_ar_witness:
  "fetch_data demo_libs demo_study = (demo_fetched, True)
   \<and> analysis_body demo_libs demo_fetched = Inr (demo_final, Completed demo_result)
   \<and> ar demo_final = Some 0
   \<and> run_full_analysis demo_libs demo_study = Completed demo_result
   \<and> res_direction demo_result = ''neutral''
   \<and> take 8 (res_summary demo_result) = ''Negative''
   \<and> res_summary demo_result
       = ''Negative abnormal return of 0.00%. Not statistically significant. ''"
proof -
  have z: "ar demo_final = Some 0" by (simp add: demo_final_def demo_abnormal_def)
  have s: "res_summary demo_result
       = ''Negative abnormal return of 0.00%. Not statistically significant. ''"
    by (simp add: demo_result_def)
  from run_full_analysis_zero_ar[OF demo_fetch demo_body z] demo_fetch demo_body z s
  show ?thesis by blast
qed


end
